theory Spec2Isabelle
  imports Complex_Main "HOL-Library.Word"
begin

section \<open>JavaScript strings\<close>

text \<open>
  A JavaScript string is a sequence of UTF-16 code units. \<open>lit\<close> embeds an ASCII
  literal of the source; characters outside ASCII are written as their code units.
\<close>

type_synonym jsstring = "16 word list"

definition lit :: "string \<Rightarrow> jsstring" where
  "lit s = map (\<lambda>c. of_nat (of_char c)) s"

definition NL :: "16 word" where
  "NL = 0x0A"

definition SPACE :: "16 word" where
  "SPACE = 0x20"

definition COLON :: "16 word" where
  "COLON = 0x3A"

text \<open>
  The code units that \<open>String.prototype.trim\<close> strips: ECMAScript's WhiteSpace and
  LineTerminator.
\<close>

definition is_ws :: "16 word \<Rightarrow> bool" where
  "is_ws c \<longleftrightarrow>
     c = 0x09 \<or> c = 0x0A \<or> c = 0x0B \<or> c = 0x0C \<or> c = 0x0D \<or> c = 0x20 \<or>
     c = 0xA0 \<or> c = 0x1680 \<or> (0x2000 \<le> c \<and> c \<le> 0x200A) \<or>
     c = 0x2028 \<or> c = 0x2029 \<or> c = 0x202F \<or> c = 0x205F \<or> c = 0x3000 \<or>
     c = 0xFEFF"

definition trim :: "jsstring \<Rightarrow> jsstring" where
  "trim s = rev (dropWhile is_ws (rev (dropWhile is_ws s)))"

text \<open>\<open>s.startsWith(p)\<close>, \<open>s.endsWith(':')\<close>, \<open>s.substring(2)\<close>, \<open>s.slice(0, -1)\<close>.\<close>

definition startsWith :: "jsstring \<Rightarrow> jsstring \<Rightarrow> bool" where
  "startsWith s p \<longleftrightarrow> take (length p) s = p"

definition endsWithColon :: "jsstring \<Rightarrow> bool" where
  "endsWithColon s \<longleftrightarrow> s \<noteq> [] \<and> last s = COLON"

definition substring2 :: "jsstring \<Rightarrow> jsstring" where
  "substring2 s = drop 2 s"

definition slice_0_m1 :: "jsstring \<Rightarrow> jsstring" where
  "slice_0_m1 s = butlast s"

text \<open>\<open>s.split(sep)\<close> for a separator of one code unit: never the empty array.\<close>

fun split :: "16 word \<Rightarrow> jsstring \<Rightarrow> jsstring list" where
  "split sep [] = [[]]"
| "split sep (c # cs) =
     (if c = sep then [] # split sep cs
      else (case split sep cs of
              [] \<Rightarrow> [[c]]
            | l # ls \<Rightarrow> (c # l) # ls))"

text \<open>\<open>line.split(' ')[0]\<close>: element 0 of the split always exists.\<close>

definition first_token :: "jsstring \<Rightarrow> jsstring" where
  "first_token s = (case split SPACE s of [] \<Rightarrow> [] | t # _ \<Rightarrow> t)"

section \<open>The data model of App.tsx\<close>

record GroundingUrl =
  uri :: jsstring
  title :: jsstring

record IngredientDetail =
  name :: jsstring
  explanation :: jsstring

record ParsedResult =
  icon :: jsstring
  overallVerdict :: jsstring
  greenwashingRisk :: jsstring
  claimsFailed :: "jsstring list"
  whyClaimsFailed :: "jsstring list"
  ingredientsToNote :: "jsstring list"
  moreDetails :: jsstring
  ingredientSpecificDetails :: "IngredientDetail list"
  improvementSuggestions :: "jsstring list"
  groundingUrls :: "GroundingUrl list"

text \<open>The values \<open>currentSection\<close> takes besides \<open>null\<close>.\<close>

datatype section_key =
  ClaimsFailed | WhyClaimsFailed | IngredientsToNote | MoreDetails
  | IngredientSpecificDetails | ImprovementSuggestions

text \<open>Reading \<open>.trim\<close> of \<open>undefined\<close> throws a TypeError.\<close>

datatype error = TypeError

definition IRRELEVANT_INPUT_MESSAGE :: jsstring where
  "IRRELEVANT_INPUT_MESSAGE =
     lit ''Input not recognized as a product label.'' @ [NL] @
     lit ''Please paste a product'' @ [0x2019] @
     lit ''s ingredient list or upload a clear image of the ingredient label to run a sustainability check.'' @ [NL] @
     lit ''For example: ingredients, material lists, or sustainability claims printed on packaging.''"

definition ICON_CROSS :: jsstring where
  "ICON_CROSS = [0x274C]"

definition ICON_ORANGE :: jsstring where
  "ICON_ORANGE = [0xD83D, 0xDFE0]"

definition ICON_CHECK :: jsstring where
  "ICON_CHECK = [0x2705]"

definition initial_result :: ParsedResult where
  "initial_result =
     \<lparr> icon = [], overallVerdict = [], greenwashingRisk = [], claimsFailed = [],
       whyClaimsFailed = [], ingredientsToNote = [], moreDetails = [],
       ingredientSpecificDetails = [], improvementSuggestions = [], groundingUrls = [] \<rparr>"

section \<open>parseSustainabilityResult\<close>

text \<open>
  The loop's variables besides the index: \<open>result\<close>, \<open>currentSection\<close> and
  \<open>ingredientDetailName\<close>.
\<close>

record pstate =
  result :: ParsedResult
  currentSection :: "section_key option"
  ingredientDetailName :: jsstring

definition initial_state :: pstate where
  "initial_state =
     \<lparr> result = initial_result, currentSection = None, ingredientDetailName = [] \<rparr>"

text \<open>
  Appending \<open>line + '\n'\<close> to the explanation of the last entry, under the guard
  \<open>lastIndex >= 0\<close>.
\<close>

definition append_explanation :: "jsstring \<Rightarrow> IngredientDetail list \<Rightarrow> IngredientDetail list" where
  "append_explanation line ds =
     (if ds = [] then ds
      else butlast ds @ [(last ds)\<lparr>explanation := explanation (last ds) @ line @ [NL]\<rparr>])"

text \<open>The branch \<open>else if (currentSection)\<close> of the loop body, on the trimmed line.\<close>

definition section_line :: "section_key \<Rightarrow> jsstring \<Rightarrow> pstate \<Rightarrow> pstate" where
  "section_line sec line st =
     (let r = result st in
      if sec = ClaimsFailed \<and> startsWith line (lit ''- '') then
        st\<lparr>result := r\<lparr>claimsFailed := claimsFailed r @ [trim (substring2 line)]\<rparr>\<rparr>
      else if sec = WhyClaimsFailed \<and> startsWith line (lit ''- '') then
        st\<lparr>result := r\<lparr>whyClaimsFailed := whyClaimsFailed r @ [trim (substring2 line)]\<rparr>\<rparr>
      else if sec = IngredientsToNote \<and> startsWith line (lit ''- '') then
        st\<lparr>result := r\<lparr>ingredientsToNote := ingredientsToNote r @ [trim (substring2 line)]\<rparr>\<rparr>
      else if sec = MoreDetails \<and> line \<noteq> [] then
        st\<lparr>result := r\<lparr>moreDetails := moreDetails r @ line @ [NL]\<rparr>\<rparr>
      else if sec = IngredientSpecificDetails then
        (if endsWithColon line then
           (let nm = trim (slice_0_m1 line) in
            if nm \<noteq> [] then
              st\<lparr>result := r\<lparr>ingredientSpecificDetails :=
                             ingredientSpecificDetails r @ [\<lparr>name = nm, explanation = []\<rparr>]\<rparr>,
                 ingredientDetailName := nm\<rparr>
            else st\<lparr>ingredientDetailName := nm\<rparr>)
         else if ingredientDetailName st \<noteq> [] \<and> line \<noteq> [] then
           st\<lparr>result := r\<lparr>ingredientSpecificDetails :=
                          append_explanation line (ingredientSpecificDetails r)\<rparr>\<rparr>
         else st)
      else if sec = ImprovementSuggestions \<and> startsWith line (lit ''- '') then
        st\<lparr>result := r\<lparr>improvementSuggestions := improvementSuggestions r @ [trim (substring2 line)]\<rparr>\<rparr>
      else st)"

text \<open>
  The \<open>for\<close> loop over \<open>lines\<close>, from index \<open>i\<close> on: the argument is the rest of the
  array. The two single-value headers read \<open>lines[++i]\<close>, which is \<open>undefined\<close> past
  the end, so that \<open>.trim()\<close> throws.
\<close>

fun scan :: "jsstring list \<Rightarrow> pstate \<Rightarrow> error + pstate" where
  "scan [] st = Inr st"
| "scan (l # ls) st =
     (let line = trim l in
      if startsWith line ICON_CROSS \<or> startsWith line ICON_ORANGE \<or> startsWith line ICON_CHECK then
        scan ls (st\<lparr>result := (result st)\<lparr>icon := first_token line\<rparr>\<rparr>)
      else if startsWith line (lit ''Overall Verdict:'') then
        (case ls of
           [] \<Rightarrow> Inl TypeError
         | n # rest \<Rightarrow>
             scan rest (st\<lparr>result := (result st)\<lparr>overallVerdict := trim n\<rparr>,
                           currentSection := None\<rparr>))
      else if startsWith line (lit ''Greenwashing Risk:'') then
        (case ls of
           [] \<Rightarrow> Inl TypeError
         | n # rest \<Rightarrow>
             scan rest (st\<lparr>result := (result st)\<lparr>greenwashingRisk := trim n\<rparr>,
                           currentSection := None\<rparr>))
      else if startsWith line (lit ''Claims that failed to meet expectations:'') then
        scan ls (st\<lparr>currentSection := Some ClaimsFailed\<rparr>)
      else if startsWith line (lit ''Why these claims failed:'') then
        scan ls (st\<lparr>currentSection := Some WhyClaimsFailed\<rparr>)
      else if startsWith line (lit ''Ingredients to note:'') then
        scan ls (st\<lparr>currentSection := Some IngredientsToNote\<rparr>)
      else if startsWith line (lit ''More details:'') then
        scan ls (st\<lparr>currentSection := Some MoreDetails\<rparr>)
      else if startsWith line (lit ''Ingredient-specific details:'') then
        scan ls (st\<lparr>currentSection := Some IngredientSpecificDetails\<rparr>)
      else if startsWith line (lit ''Improvement suggestions:'') then
        scan ls (st\<lparr>currentSection := Some ImprovementSuggestions\<rparr>)
      else (case currentSection st of
              None \<Rightarrow> scan ls st
            | Some sec \<Rightarrow> scan ls (section_line sec line st)))"

text \<open>The clean-up after the loop.\<close>

definition cleanup :: "ParsedResult \<Rightarrow> ParsedResult" where
  "cleanup r =
     (let r1 = (if moreDetails r \<noteq> [] then r\<lparr>moreDetails := trim (moreDetails r)\<rparr> else r)
      in r1\<lparr>ingredientSpecificDetails :=
              map (\<lambda>item. item\<lparr>explanation := trim (explanation item)\<rparr>)
                  (ingredientSpecificDetails r1)\<rparr>)"

text \<open>
  \<open>Inr None\<close> is the returned \<open>null\<close>, \<open>Inr (Some r)\<close> a returned record, \<open>Inl e\<close> a
  thrown exception.
\<close>

definition parseSustainabilityResult :: "jsstring \<Rightarrow> error + ParsedResult option" where
  "parseSustainabilityResult rawText =
     (if rawText = [] \<or> trim rawText = trim IRRELEVANT_INPUT_MESSAGE then Inr None
      else (case scan (split NL rawText) initial_state of
              Inl e \<Rightarrow> Inl e
            | Inr st \<Rightarrow> Inr (Some (cleanup (result st)))))"

section \<open>Kinds of lines\<close>

text \<open>
  The conditions of the loop's \<open>if\<close> chain on the trimmed line, named: an icon line,
  one of the two single-value headers, one of the six section headers. A plain line is
  a line of the input that reaches the last branch, \<open>else if (currentSection)\<close>.
\<close>

definition icon_line :: "jsstring \<Rightarrow> bool" where
  "icon_line line \<longleftrightarrow>
     startsWith line ICON_CROSS \<or> startsWith line ICON_ORANGE \<or> startsWith line ICON_CHECK"

definition value_header :: "jsstring \<Rightarrow> bool" where
  "value_header line \<longleftrightarrow>
     startsWith line (lit ''Overall Verdict:'') \<or> startsWith line (lit ''Greenwashing Risk:'')"

definition section_header :: "jsstring \<Rightarrow> bool" where
  "section_header line \<longleftrightarrow>
     startsWith line (lit ''Claims that failed to meet expectations:'') \<or>
     startsWith line (lit ''Why these claims failed:'') \<or>
     startsWith line (lit ''Ingredients to note:'') \<or>
     startsWith line (lit ''More details:'') \<or>
     startsWith line (lit ''Ingredient-specific details:'') \<or>
     startsWith line (lit ''Improvement suggestions:'')"

definition plain_line :: "jsstring \<Rightarrow> bool" where
  "plain_line l \<longleftrightarrow>
     \<not> icon_line (trim l) \<and> \<not> value_header (trim l) \<and> \<not> section_header (trim l)"

text \<open>
  What one iteration does to the loop's variables on a trimmed line that is not a
  single-value header: the iteration then reads no other line.
\<close>

definition other_line :: "jsstring \<Rightarrow> pstate \<Rightarrow> pstate" where
  "other_line line st =
     (if icon_line line then st\<lparr>result := (result st)\<lparr>icon := first_token line\<rparr>\<rparr>
      else if startsWith line (lit ''Claims that failed to meet expectations:'') then
        st\<lparr>currentSection := Some ClaimsFailed\<rparr>
      else if startsWith line (lit ''Why these claims failed:'') then
        st\<lparr>currentSection := Some WhyClaimsFailed\<rparr>
      else if startsWith line (lit ''Ingredients to note:'') then
        st\<lparr>currentSection := Some IngredientsToNote\<rparr>
      else if startsWith line (lit ''More details:'') then
        st\<lparr>currentSection := Some MoreDetails\<rparr>
      else if startsWith line (lit ''Ingredient-specific details:'') then
        st\<lparr>currentSection := Some IngredientSpecificDetails\<rparr>
      else if startsWith line (lit ''Improvement suggestions:'') then
        st\<lparr>currentSection := Some ImprovementSuggestions\<rparr>
      else (case currentSection st of
              None \<Rightarrow> st
            | Some sec \<Rightarrow> section_line sec line st))"

text \<open>
  What the iteration does on a single-value header whose next line is \<open>n\<close> (here
  \<open>v\<close> is \<open>n.trim()\<close>); the loop then goes on after \<open>n\<close>.
\<close>

definition value_line :: "jsstring \<Rightarrow> jsstring \<Rightarrow> pstate \<Rightarrow> pstate" where
  "value_line line v st =
     (if startsWith line (lit ''Overall Verdict:'')
      then st\<lparr>result := (result st)\<lparr>overallVerdict := v\<rparr>, currentSection := None\<rparr>
      else st\<lparr>result := (result st)\<lparr>greenwashingRisk := v\<rparr>, currentSection := None\<rparr>)"

section \<open>Notions used to state the properties\<close>

text \<open>
  The four sections that hold bulleted lists, the entries a block of lines contributes
  to such a list, and the update of the list that belongs to a section.
\<close>

definition bullet_section :: "section_key \<Rightarrow> bool" where
  "bullet_section sec \<longleftrightarrow>
     sec = ClaimsFailed \<or> sec = WhyClaimsFailed \<or> sec = IngredientsToNote \<or> sec = ImprovementSuggestions"

definition bullet_entries :: "jsstring list \<Rightarrow> jsstring list" where
  "bullet_entries body =
     map (\<lambda>l. trim (substring2 (trim l))) (filter (\<lambda>l. startsWith (trim l) (lit ''- '')) body)"

fun add_entries :: "section_key \<Rightarrow> jsstring list \<Rightarrow> ParsedResult \<Rightarrow> ParsedResult" where
  "add_entries ClaimsFailed es r = r\<lparr>claimsFailed := claimsFailed r @ es\<rparr>"
| "add_entries WhyClaimsFailed es r = r\<lparr>whyClaimsFailed := whyClaimsFailed r @ es\<rparr>"
| "add_entries IngredientsToNote es r = r\<lparr>ingredientsToNote := ingredientsToNote r @ es\<rparr>"
| "add_entries ImprovementSuggestions es r = r\<lparr>improvementSuggestions := improvementSuggestions r @ es\<rparr>"
| "add_entries MoreDetails es r = r"
| "add_entries IngredientSpecificDetails es r = r"

text \<open>The free text that the \<open>moreDetails\<close> section collects from a block of lines.\<close>

definition block_text :: "jsstring list \<Rightarrow> jsstring" where
  "block_text body = concat (map (\<lambda>l. trim l @ [NL]) (filter (\<lambda>l. trim l \<noteq> []) body))"

text \<open>
  In the section of ingredient-specific details: an active entry name is the name of
  the last entry; a line that is neither a name line (ending in a colon) nor a header.
\<close>

definition name_active_inv :: "pstate \<Rightarrow> bool" where
  "name_active_inv st \<longleftrightarrow>
     (ingredientDetailName st \<noteq> [] \<longrightarrow>
        ingredientSpecificDetails (result st) \<noteq> [] \<and>
        name (last (ingredientSpecificDetails (result st))) = ingredientDetailName st)"


text \<open>A header line other than \<open>Claims that failed to meet expectations:\<close>.\<close>

definition other_header :: "jsstring \<Rightarrow> bool" where
  "other_header line \<longleftrightarrow>
     value_header line \<or>
     (section_header line \<and> \<not> startsWith line (lit ''Claims that failed to meet expectations:''))"

text \<open>
  The first line of a response in the format that the service asks for, with the empty
  line after it; the example texts of the specification's testable properties 2, 3 and
  4; the loop's variables after the lines \<open>Ingredient-specific details:\<close> and
  \<open>Paraben:\<close>.
\<close>

definition RESPONSE_START :: jsstring where
  "RESPONSE_START = ICON_CHECK @ lit '' Sustainability Check Result'' @ [NL, NL]"


definition VERDICT_EXAMPLE :: jsstring where
  "VERDICT_EXAMPLE = lit ''Overall Verdict:'' @ [NL] @ lit ''Low Greenwashing Risk'' @ [NL]"

definition CLAIMS_EXAMPLE :: jsstring where
  "CLAIMS_EXAMPLE =
     lit ''Claims that failed to meet expectations:'' @ [NL] @ lit ''- Claim A'' @ [NL] @
     lit ''- Claim B'' @ [NL]"

text \<open>
  A response in that format up to the section of failed claims is
  \<open>RESPONSE_BEFORE_CLAIMS @ CLAIMS_EXAMPLE @ RESPONSE_AFTER_CLAIMS\<close>, which is also
  \<open>RESPONSE_START @ VERDICT_EXAMPLE @ RESPONSE_AFTER_VERDICT\<close>.
\<close>

definition RESPONSE_AFTER_CLAIMS :: jsstring where
  "RESPONSE_AFTER_CLAIMS =
     [NL] @ lit ''Why these claims failed:'' @ [NL] @
     lit ''- Not supported by the ingredients'' @ [NL]"

definition RESPONSE_AFTER_VERDICT :: jsstring where
  "RESPONSE_AFTER_VERDICT =
     [NL] @ lit ''Greenwashing Risk:'' @ [NL] @ lit ''10% (Low)'' @ [NL, NL] @
     CLAIMS_EXAMPLE @ RESPONSE_AFTER_CLAIMS"

definition RESPONSE_BEFORE_CLAIMS :: jsstring where
  "RESPONSE_BEFORE_CLAIMS =
     RESPONSE_START @ VERDICT_EXAMPLE @ [NL] @ lit ''Greenwashing Risk:'' @ [NL] @
     lit ''10% (Low)'' @ [NL, NL]"

definition PARABEN_EXAMPLE :: jsstring where
  "PARABEN_EXAMPLE =
     lit ''Ingredient-specific details:'' @ [NL] @ lit ''Paraben:'' @ [NL] @
     lit ''Synthetic preservative.'' @ [NL] @ lit ''More text.'' @ [NL]"

definition paraben_state :: pstate where
  "paraben_state =
     \<lparr> result = initial_result\<lparr>ingredientSpecificDetails := [\<lparr>name = lit ''Paraben'', explanation = []\<rparr>]\<rparr>,
       currentSection = Some IngredientSpecificDetails,
       ingredientDetailName = lit ''Paraben'' \<rparr>"

section \<open>generatePdfReport\<close>

text \<open>
  jsPDF is an external library. What \<open>generatePdfReport\<close> reads from the document is a
  parameter: the page size, \<open>getTextWidth\<close> and \<open>splitTextToSize\<close> (both in the font
  that is set at each of their calls, helvetica normal at size 12). \<open>A4\<close> is the page
  of \<open>new jsPDF()\<close>: portrait A4, 595.28 by 841.89 points, in millimetres. Coordinates
  are rationals: every value of \<open>y\<close> is a multiple of one half, which a JavaScript
  number holds exactly.

  A placement records one call of \<open>doc.text\<close> or \<open>doc.textWithLink\<close>: the page, the
  position and the text. Fonts and colours are not recorded. The state of the function
  is the number of pages, the placements so far and the variable \<open>y\<close>.
\<close>

record jspdf =
  pageWidth :: rat
  pageHeight :: rat
  getTextWidth :: "jsstring \<Rightarrow> rat"
  splitTextToSize :: "jsstring \<Rightarrow> rat \<Rightarrow> jsstring list"

definition A4 :: "(jsstring \<Rightarrow> rat) \<Rightarrow> (jsstring \<Rightarrow> rat \<Rightarrow> jsstring list) \<Rightarrow> jspdf" where
  "A4 tw sp =
     \<lparr> pageWidth = 59528 * 254 / 72000, pageHeight = 84189 * 254 / 72000,
       getTextWidth = tw, splitTextToSize = sp \<rparr>"

record placement =
  ppage :: nat
  px :: rat
  py :: rat
  ptext :: jsstring
  plink :: "jsstring option"

record pdf_state =
  numPages :: nat
  placements :: "placement list"
  ypos :: rat

definition margin :: rat where
  "margin = 10"

definition lineHeight :: rat where
  "lineHeight = 7"

definition sectionSpacing :: rat where
  "sectionSpacing = 10"

definition textWidth :: "jspdf \<Rightarrow> rat" where
  "textWidth doc = pageWidth doc - 2 * margin"

text \<open>\<open>new jsPDF()\<close> with \<open>y = 10\<close>; \<open>doc.text\<close>, \<open>doc.textWithLink\<close>, \<open>y += d\<close>, and the check
  \<open>if (y + h > doc.internal.pageSize.height - margin) { doc.addPage(); y = margin; }\<close>.\<close>

definition new_pdf :: pdf_state where
  "new_pdf = \<lparr> numPages = 1, placements = [], ypos = 10 \<rparr>"

definition doc_text :: "jsstring \<Rightarrow> rat \<Rightarrow> rat \<Rightarrow> pdf_state \<Rightarrow> pdf_state" where
  "doc_text t x yy st =
     st\<lparr>placements := placements st @
          [\<lparr>ppage = numPages st, px = x, py = yy, ptext = t, plink = None\<rparr>]\<rparr>"

definition doc_textWithLink :: "jsstring \<Rightarrow> rat \<Rightarrow> rat \<Rightarrow> jsstring \<Rightarrow> pdf_state \<Rightarrow> pdf_state" where
  "doc_textWithLink t x yy url st =
     st\<lparr>placements := placements st @
          [\<lparr>ppage = numPages st, px = x, py = yy, ptext = t, plink = Some url\<rparr>]\<rparr>"

definition advance :: "rat \<Rightarrow> pdf_state \<Rightarrow> pdf_state" where
  "advance d st = st\<lparr>ypos := ypos st + d\<rparr>"

definition page_break_if :: "jspdf \<Rightarrow> rat \<Rightarrow> pdf_state \<Rightarrow> pdf_state" where
  "page_break_if doc h st =
     (if ypos st + h > pageHeight doc - margin
      then st\<lparr>numPages := numPages st + 1, ypos := margin\<rparr>
      else st)"

text \<open>
  The body of the \<open>forEach\<close> of a bulleted list, and the two shapes of a list section:
  heading and bullets, or heading and fallback text on one line.
\<close>

definition bullet_item :: "jspdf \<Rightarrow> pdf_state \<Rightarrow> jsstring \<Rightarrow> pdf_state" where
  "bullet_item doc st item =
     (let st1 = page_break_if doc lineHeight st;
          st2 = doc_text (lit ''- '' @ item) (margin + 5) (ypos st1) st1
      in advance lineHeight st2)"

definition bulleted_block :: "jspdf \<Rightarrow> jsstring \<Rightarrow> jsstring list \<Rightarrow> pdf_state \<Rightarrow> pdf_state" where
  "bulleted_block doc heading items st =
     (let st1 = doc_text heading margin (ypos st) st;
          st2 = advance lineHeight st1;
          st3 = foldl (bullet_item doc) st2 items
      in advance sectionSpacing st3)"

definition fallback_line :: "jspdf \<Rightarrow> jsstring \<Rightarrow> jsstring \<Rightarrow> jsstring \<Rightarrow> pdf_state \<Rightarrow> pdf_state" where
  "fallback_line doc heading measured fallback st =
     (let st1 = doc_text heading margin (ypos st) st;
          st2 = doc_text fallback (margin + getTextWidth doc measured + 2) (ypos st1) st1
      in advance (lineHeight + sectionSpacing) st2)"

definition header_block :: "jspdf \<Rightarrow> ParsedResult \<Rightarrow> pdf_state \<Rightarrow> pdf_state" where
  "header_block doc r st =
     (let st1 = doc_text (icon r @ lit '' Sustainability Check Result'') margin (ypos st) st;
          st2 = advance (lineHeight * 2) st1;
          st3 = doc_text (lit ''Overall Verdict:'') margin (ypos st2) st2;
          st4 = doc_text (overallVerdict r)
                  (margin + getTextWidth doc (lit ''Overall Verdict: '')) (ypos st3) st3;
          st5 = advance lineHeight st4;
          st6 = doc_text (lit ''Greenwashing Risk:'') margin (ypos st5) st5;
          st7 = doc_text (greenwashingRisk r)
                  (margin + getTextWidth doc (lit ''Greenwashing Risk: '')) (ypos st6) st6
      in advance (lineHeight + sectionSpacing) st7)"

definition claims_section :: "jspdf \<Rightarrow> ParsedResult \<Rightarrow> pdf_state \<Rightarrow> pdf_state" where
  "claims_section doc r st =
     (if claimsFailed r \<noteq> []
      then bulleted_block doc (lit ''Claims that failed to meet expectations:'') (claimsFailed r) st
      else fallback_line doc (lit ''Claims that failed to meet expectations:'')
             (lit ''Claims that failed to meet expectations: '') (lit ''None'') st)"

definition why_section :: "jspdf \<Rightarrow> ParsedResult \<Rightarrow> pdf_state \<Rightarrow> pdf_state" where
  "why_section doc r st =
     (if whyClaimsFailed r \<noteq> []
      then bulleted_block doc (lit ''Why these claims failed:'') (whyClaimsFailed r) st
      else fallback_line doc (lit ''Why these claims failed:'') (lit ''Why these claims failed: '')
             (lit ''All claims appear reasonable or are well-supported by ingredients.'') st)"

definition note_section :: "jspdf \<Rightarrow> ParsedResult \<Rightarrow> pdf_state \<Rightarrow> pdf_state" where
  "note_section doc r st =
     (if ingredientsToNote r \<noteq> []
      then bulleted_block doc (lit ''Ingredients to note:'') (ingredientsToNote r) st
      else fallback_line doc (lit ''Ingredients to note:'') (lit ''Ingredients to note: '')
             (lit ''None'') st)"

definition wrapped_line :: "jspdf \<Rightarrow> rat \<Rightarrow> pdf_state \<Rightarrow> jsstring \<Rightarrow> pdf_state" where
  "wrapped_line doc x st line =
     (let st1 = page_break_if doc lineHeight st;
          st2 = doc_text line x (ypos st1) st1
      in advance lineHeight st2)"

definition more_section :: "jspdf \<Rightarrow> ParsedResult \<Rightarrow> pdf_state \<Rightarrow> pdf_state" where
  "more_section doc r st =
     (if moreDetails r \<noteq> [] then
        (let st1 = doc_text (lit ''More details:'') margin (ypos st) st;
             st2 = advance lineHeight st1;
             st3 = foldl (wrapped_line doc margin) st2
                     (splitTextToSize doc (moreDetails r) (textWidth doc))
         in advance sectionSpacing st3)
      else st)"

definition ingredient_item :: "jspdf \<Rightarrow> pdf_state \<Rightarrow> IngredientDetail \<Rightarrow> pdf_state" where
  "ingredient_item doc st item =
     (let st1 = page_break_if doc (lineHeight * 2) st;
          st2 = doc_text (name item @ lit '':'') (margin + 5) (ypos st1) st1;
          st3 = advance lineHeight st2;
          st4 = foldl (wrapped_line doc (margin + 10)) st3
                  (splitTextToSize doc (explanation item) (textWidth doc - 10))
      in advance (lineHeight / 2) st4)"

definition ingredient_section :: "jspdf \<Rightarrow> ParsedResult \<Rightarrow> pdf_state \<Rightarrow> pdf_state" where
  "ingredient_section doc r st =
     (if ingredientSpecificDetails r \<noteq> [] then
        (let st1 = doc_text (lit ''Ingredient-specific details:'') margin (ypos st) st;
             st2 = advance lineHeight st1;
             st3 = foldl (ingredient_item doc) st2 (ingredientSpecificDetails r)
         in advance sectionSpacing st3)
      else st)"

definition suggestions_section :: "jspdf \<Rightarrow> ParsedResult \<Rightarrow> pdf_state \<Rightarrow> pdf_state" where
  "suggestions_section doc r st =
     (if improvementSuggestions r \<noteq> []
      then bulleted_block doc (lit ''Improvement suggestions:'') (improvementSuggestions r) st
      else st)"

definition url_item :: "jspdf \<Rightarrow> pdf_state \<Rightarrow> GroundingUrl \<Rightarrow> pdf_state" where
  "url_item doc st url =
     (let st1 = page_break_if doc (lineHeight * 2) st;
          st2 = doc_text (if title url \<noteq> [] then title url else uri url) (margin + 5) (ypos st1) st1;
          st3 = doc_textWithLink (uri url) (margin + 5) (ypos st2 + lineHeight / 2) (uri url) st2
      in advance (lineHeight * 2) st3)"

definition sources_section :: "jspdf \<Rightarrow> ParsedResult \<Rightarrow> pdf_state \<Rightarrow> pdf_state" where
  "sources_section doc r st =
     (if groundingUrls r \<noteq> [] then
        (let st1 = doc_text (lit ''Source Information:'') margin (ypos st) st;
             st2 = advance lineHeight st1;
             st3 = foldl (url_item doc) st2 (groundingUrls r)
         in advance sectionSpacing st3)
      else st)"

definition generatePdfReport :: "jspdf \<Rightarrow> ParsedResult option \<Rightarrow> pdf_state option" where
  "generatePdfReport doc parsedResult =
     (case parsedResult of
        None \<Rightarrow> None
      | Some r \<Rightarrow>
          Some (sources_section doc r
                 (suggestions_section doc r
                   (ingredient_section doc r
                     (more_section doc r
                       (note_section doc r
                         (why_section doc r
                           (claims_section doc r
                             (header_block doc r new_pdf)))))))))"

text \<open>
  A step that only adds placements after those made so far; the sections that follow
  the three list sections; a result with 33 failed claims and nothing else.
\<close>

definition appends :: "(pdf_state \<Rightarrow> pdf_state) \<Rightarrow> bool" where
  "appends f \<longleftrightarrow> (\<forall>st. \<exists>xs. placements (f st) = placements st @ xs)"

definition later_sections :: "jspdf \<Rightarrow> ParsedResult \<Rightarrow> pdf_state \<Rightarrow> pdf_state" where
  "later_sections doc r st =
     sources_section doc r (suggestions_section doc r (ingredient_section doc r (more_section doc r st)))"

definition claims33 :: ParsedResult where
  "claims33 = initial_result\<lparr>claimsFailed := replicate 33 (lit ''Claim'')\<rparr>"

section \<open>The loop, line by line\<close>

lemma startsWith_hd: "startsWith s p \<Longrightarrow> p \<noteq> [] \<Longrightarrow> s \<noteq> [] \<and> hd s = hd p"
  by (cases s; cases p) (auto simp: startsWith_def)

lemma value_header_hd: "value_header line \<Longrightarrow> line \<noteq> [] \<and> (hd line = 0x4F \<or> hd line = 0x47)"
  unfolding value_header_def
  by (auto dest!: startsWith_hd simp: lit_def)

lemma icon_line_hd:
  "icon_line line \<Longrightarrow> line \<noteq> [] \<and> (hd line = 0x274C \<or> hd line = 0xD83D \<or> hd line = 0x2705)"
  unfolding icon_line_def ICON_CROSS_def ICON_ORANGE_def ICON_CHECK_def
  by (auto dest!: startsWith_hd)

lemma section_header_hd:
  "section_header line \<Longrightarrow> line \<noteq> [] \<and> hd line \<in> {0x43, 0x57, 0x49, 0x4D}"
  unfolding section_header_def
  by (auto dest!: startsWith_hd simp: lit_def)

lemma bullet_hd: "startsWith line (lit ''- '') \<Longrightarrow> line \<noteq> [] \<and> hd line = 0x2D"
  by (auto dest!: startsWith_hd simp: lit_def)

lemma value_header_not_icon: "value_header line \<Longrightarrow> \<not> icon_line line"
  by (auto dest!: value_header_hd icon_line_hd)

lemma scan_other:
  "\<not> value_header (trim l) \<Longrightarrow> scan (l # ls) st = scan ls (other_line (trim l) st)"
  by (simp add: value_header_def other_line_def icon_line_def Let_def split: option.splits)

lemma scan_overall:
  "startsWith (trim l) (lit ''Overall Verdict:'') \<Longrightarrow>
   scan (l # n # ls) st =
     scan ls (st\<lparr>result := (result st)\<lparr>overallVerdict := trim n\<rparr>, currentSection := None\<rparr>)"
  using value_header_not_icon [of "trim l"]
  by (simp add: value_header_def icon_line_def Let_def)

lemma scan_risk:
  "startsWith (trim l) (lit ''Greenwashing Risk:'') \<Longrightarrow>
   scan (l # n # ls) st =
     scan ls (st\<lparr>result := (result st)\<lparr>greenwashingRisk := trim n\<rparr>, currentSection := None\<rparr>)"
  using value_header_not_icon [of "trim l"] startsWith_hd [of "trim l" "lit ''Overall Verdict:''"]
    startsWith_hd [of "trim l" "lit ''Greenwashing Risk:''"]
  by (auto simp add: value_header_def icon_line_def Let_def lit_def)

lemma scan_value_last: "value_header (trim l) \<Longrightarrow> scan [l] st = Inl TypeError"
  using value_header_not_icon [of "trim l"]
  by (auto simp add: value_header_def icon_line_def Let_def)

lemma scan_value:
  "value_header (trim l) \<Longrightarrow> scan (l # n # ls) st = scan ls (value_line (trim l) (trim n) st)"
  by (auto simp: value_header_def value_line_def scan_overall scan_risk simp del: scan.simps)

declare scan.simps(2) [simp del]

lemma scan_plain:
  "plain_line l \<Longrightarrow>
   scan (l # ls) st =
     scan ls (case currentSection st of None \<Rightarrow> st | Some sec \<Rightarrow> section_line sec (trim l) st)"
  by (simp add: plain_line_def scan_other other_line_def section_header_def split: option.splits)

lemma scan_icon:
  "icon_line (trim l) \<Longrightarrow>
   scan (l # ls) st = scan ls (st\<lparr>result := (result st)\<lparr>icon := first_token (trim l)\<rparr>\<rparr>)"
proof -
  assume i: "icon_line (trim l)"
  then have "\<not> value_header (trim l)" using value_header_not_icon by blast
  then show ?thesis using i by (simp add: scan_other other_line_def)
qed

text \<open>
  Induction along the loop: an iteration on a line other than a single-value header
  moves to the next line; a single-value header either is the last line or takes the
  next line with it.
\<close>

lemma scan_induct2 [case_names Nil Other Last Value]:
  assumes "\<And>st. P [] st"
    and "\<And>l ls st. \<not> value_header (trim l) \<Longrightarrow> P ls (other_line (trim l) st) \<Longrightarrow> P (l # ls) st"
    and "\<And>l st. value_header (trim l) \<Longrightarrow> P [l] st"
    and "\<And>l n ls st. value_header (trim l) \<Longrightarrow> P ls (value_line (trim l) (trim n) st)
           \<Longrightarrow> P (l # n # ls) st"
  shows "P ls st"
proof (induction ls arbitrary: st rule: length_induct)
  case (1 xs)
  show ?case
  proof (cases xs)
    case Nil
    then show ?thesis using assms(1) by simp
  next
    case (Cons l ls)
    show ?thesis
    proof (cases "value_header (trim l)")
      case False
      then show ?thesis using assms(2) 1 Cons by simp
    next
      case True
      show ?thesis
      proof (cases ls)
        case Nil
        then show ?thesis using assms(3) True Cons by simp
      next
        case (Cons n rest)
        then show ?thesis using assms(4) True 1 \<open>xs = l # ls\<close> by simp
      qed
    qed
  qed
qed

lemma section_line_grounding:
  "groundingUrls (result (section_line sec line st)) = groundingUrls (result st)"
  by (simp add: section_line_def Let_def)

lemma other_line_grounding:
  "groundingUrls (result (other_line line st)) = groundingUrls (result st)"
  by (simp add: other_line_def section_line_grounding split: option.splits)

lemma value_line_grounding:
  "groundingUrls (result (value_line line v st)) = groundingUrls (result st)"
  by (simp add: value_line_def)

lemma scan_grounding:
  "scan ls st = Inr st' \<Longrightarrow> groundingUrls (result st') = groundingUrls (result st)"
proof (induction ls st rule: scan_induct2)
  case (Nil st)
  then show ?case by simp
next
  case (Other l ls st)
  then show ?case by (simp add: scan_other other_line_grounding)
next
  case (Last l st)
  then show ?case by (simp add: scan_value_last)
next
  case (Value l n ls st)
  then show ?case by (simp add: scan_value value_line_grounding)
qed

text \<open>The loop throws only on a single-value header in the last line.\<close>

lemma scan_total:
  "ls = [] \<or> \<not> value_header (trim (last ls)) \<Longrightarrow> \<exists>st'. scan ls st = Inr st'"
proof (induction ls st rule: scan_induct2)
  case (Nil st)
  then show ?case by simp
next
  case (Other l ls st)
  then show ?case by (cases ls) (auto simp: scan_other)
next
  case (Last l st)
  then show ?case by simp
next
  case (Value l n ls st)
  then show ?case by (cases ls) (auto simp: scan_value)
qed

section \<open>The irrelevant-input outcome\<close>

text \<open>
  C1, as the code has it: \<open>parseSustainabilityResult\<close> returns \<open>null\<close> exactly on the
  empty string and on the inputs whose trimmed value is the trimmed sentinel message.
  On every other input, a non-empty string of whitespace included, it does not return
  \<open>null\<close>; it returns a record whenever the last line of the input is not one of the
  two single-value headers.
\<close>

theorem parse_null_iff_empty_or_sentinel:
  "(parseSustainabilityResult rawText = Inr None \<longleftrightarrow>
      rawText = [] \<or> trim rawText = trim IRRELEVANT_INPUT_MESSAGE) \<and>
   (rawText \<noteq> [] \<and> trim rawText \<noteq> trim IRRELEVANT_INPUT_MESSAGE \<and>
    \<not> value_header (trim (last (split NL rawText))) \<longrightarrow>
      (\<exists>r. parseSustainabilityResult rawText = Inr (Some r)))"
proof (intro conjI impI)
  show "parseSustainabilityResult rawText = Inr None \<longleftrightarrow>
      rawText = [] \<or> trim rawText = trim IRRELEVANT_INPUT_MESSAGE"
    by (auto simp: parseSustainabilityResult_def split: sum.splits)
next
  assume a: "rawText \<noteq> [] \<and> trim rawText \<noteq> trim IRRELEVANT_INPUT_MESSAGE \<and>
    \<not> value_header (trim (last (split NL rawText)))"
  then obtain st' where "scan (split NL rawText) initial_state = Inr st'"
    using scan_total [of "split NL rawText" initial_state] by blast
  with a show "\<exists>r. parseSustainabilityResult rawText = Inr (Some r)"
    by (simp add: parseSustainabilityResult_def)
qed

theorem parse_null_iff_empty_or_sentinel_witness:
  "lit ''Overall Verdict: fine'' \<noteq> [] \<and>
   trim (lit ''Overall Verdict: fine'') \<noteq> trim IRRELEVANT_INPUT_MESSAGE \<and>
   value_header (trim (last (split NL (lit ''Overall Verdict: fine'')))) \<and>
   parseSustainabilityResult (lit ''Overall Verdict: fine'') \<noteq> Inr None \<and>
   lit ''- a'' \<noteq> [] \<and> trim (lit ''- a'') \<noteq> trim IRRELEVANT_INPUT_MESSAGE \<and>
   \<not> value_header (trim (last (split NL (lit ''- a'')))) \<and>
   (\<exists>r. parseSustainabilityResult (lit ''- a'') = Inr (Some r))"
proof -
  have a: "lit ''Overall Verdict: fine'' \<noteq> [] \<and>
      trim (lit ''Overall Verdict: fine'') \<noteq> trim IRRELEVANT_INPUT_MESSAGE \<and>
      value_header (trim (last (split NL (lit ''Overall Verdict: fine''))))"
    by code_simp
  have b: "lit ''- a'' \<noteq> [] \<and> trim (lit ''- a'') \<noteq> trim IRRELEVANT_INPUT_MESSAGE \<and>
      \<not> value_header (trim (last (split NL (lit ''- a''))))"
    by code_simp
  show ?thesis
    using a b parse_null_iff_empty_or_sentinel [of "lit ''Overall Verdict: fine''"]
      parse_null_iff_empty_or_sentinel [of "lit ''- a''"]
    by blast
qed

text \<open>
  A string of two spaces is whitespace only; the parser returns the record with every
  field empty, not \<open>null\<close>.
\<close>

theorem whitespace_input_counterexample:
  "list_all is_ws (lit ''  '') \<and>
   parseSustainabilityResult (lit ''  '') = Inr (Some initial_result)"
  by code_simp

section \<open>A single-value header in the last line\<close>

text \<open>
  C2 says that with \<open>Overall Verdict:\<close> or \<open>Greenwashing Risk:\<close> as the last line the
  parser does not throw and sets the field to the empty string. The code reads
  \<open>lines[++i]\<close> past the end and calls \<open>.trim()\<close> on \<open>undefined\<close>: it throws a
  TypeError.
\<close>

theorem value_header_last_line_throws:
  "parseSustainabilityResult (lit ''Overall Verdict:'') = Inl TypeError \<and>
   parseSustainabilityResult (lit ''Greenwashing Risk:'') = Inl TypeError \<and>
   parseSustainabilityResult
     (ICON_CHECK @ lit '' Low risk'' @ [NL] @ lit ''Greenwashing Risk:'' @ [NL] @ lit ''10% (Low)'' @ [NL] @
      lit ''Overall Verdict:'') = Inl TypeError"
  by code_simp

section \<open>Citations\<close>

text \<open>
  C9: whenever \<open>parseSustainabilityResult\<close> returns a record, its \<open>groundingUrls\<close> is
  the empty list.
\<close>

theorem parse_groundingUrls_empty:
  "parseSustainabilityResult rawText = Inr (Some r) \<Longrightarrow> groundingUrls r = []"
proof -
  assume a: "parseSustainabilityResult rawText = Inr (Some r)"
  then obtain st where st: "scan (split NL rawText) initial_state = Inr st"
    and r: "r = cleanup (result st)"
    by (auto simp: parseSustainabilityResult_def split: if_splits sum.splits)
  have "groundingUrls (result st) = []"
    using scan_grounding [OF st] by (simp add: initial_state_def initial_result_def)
  then show ?thesis
    by (simp add: r cleanup_def Let_def)
qed

theorem parse_groundingUrls_empty_witness:
  "parseSustainabilityResult (lit ''More details:'' @ [NL] @ lit ''See https://example.org'')
     = Inr (Some (initial_result\<lparr>moreDetails := lit ''See https://example.org''\<rparr>)) \<and>
   groundingUrls (initial_result\<lparr>moreDetails := lit ''See https://example.org''\<rparr>) = []"
proof -
  have h: "parseSustainabilityResult (lit ''More details:'' @ [NL] @ lit ''See https://example.org'')
     = Inr (Some (initial_result\<lparr>moreDetails := lit ''See https://example.org''\<rparr>))"
    by code_simp
  show ?thesis
    using h parse_groundingUrls_empty [OF h] by simp
qed

section \<open>Trimming and splitting\<close>




lemma set_trim_subset: "set (trim s) \<subseteq> set s"
proof -
  have "set (trim s) \<subseteq> set (dropWhile is_ws s)"
    unfolding trim_def using set_dropWhileD by fastforce
  then show ?thesis using set_dropWhileD by fastforce
qed

lemma in_set_dropWhile: "c \<in> set s \<Longrightarrow> \<not> P c \<Longrightarrow> c \<in> set (dropWhile P s)"
  by (induction s) auto

lemma in_set_trim: "c \<in> set s \<Longrightarrow> \<not> is_ws c \<Longrightarrow> c \<in> set (trim s)"
  by (simp add: trim_def in_set_dropWhile)

lemma split_not_Nil: "split sep s \<noteq> []"
  by (induction s) (auto split: list.splits)

lemma split_append_sep: "split sep (a @ sep # b) = split sep a @ split sep b"
proof (induction a)
  case Nil
  then show ?case by simp
next
  case (Cons c a)
  then show ?case using split_not_Nil [of sep a] by (auto split: list.splits)
qed

lemma split_no_sep: "sep \<notin> set s \<Longrightarrow> split sep s = [s]"
  by (induction s) auto

lemma split_line_start:
  assumes "pre = [] \<or> last pre = NL"
  shows "split NL (pre @ t) = butlast (split NL pre) @ split NL t"
proof (cases "pre = []")
  case True
  then show ?thesis by simp
next
  case False
  then obtain p where p: "pre = p @ [NL]" using assms by (metis append_butlast_last_id)
  have "split NL (pre @ t) = split NL p @ split NL t"
    using split_append_sep [of NL p t] by (simp add: p)
  moreover have "split NL pre = split NL p @ [[]]"
    using split_append_sep [of NL p "[]"] by (simp add: p)
  ultimately show ?thesis by simp
qed

section \<open>Runs of the loop\<close>

lemma scan_append: "scan pre st0 = Inr st \<Longrightarrow> scan (pre @ rest) st0 = scan rest st"
proof (induction pre st0 rule: scan_induct2)
  case (Nil st)
  then show ?case by simp
next
  case (Other l ls st)
  then show ?case by (simp add: scan_other)
next
  case (Last l st)
  then show ?case by (simp add: scan_value_last)
next
  case (Value l n ls st)
  then show ?case by (simp add: scan_value)
qed

lemma bullet_plain: "startsWith (trim l) (lit ''- '') \<Longrightarrow> plain_line l"
  unfolding plain_line_def
  by (auto dest!: bullet_hd icon_line_hd value_header_hd section_header_hd)

lemma section_line_bullet:
  "bullet_section sec \<Longrightarrow>
   section_line sec line st =
     (if startsWith line (lit ''- '')
      then st\<lparr>result := add_entries sec [trim (substring2 line)] (result st)\<rparr> else st)"
  by (cases sec) (auto simp: section_line_def bullet_section_def Let_def)

lemma add_entries_Nil: "st\<lparr>result := add_entries sec [] (result st)\<rparr> = st"
  by (cases sec) auto

lemma add_entries_append:
  "add_entries sec ys (add_entries sec xs r) = add_entries sec (xs @ ys) r"
  by (cases sec) auto

lemma scan_bullet_block:
  "bullet_section sec \<Longrightarrow> currentSection st = Some sec \<Longrightarrow> list_all plain_line body \<Longrightarrow>
   scan (body @ rest) st = scan rest (st\<lparr>result := add_entries sec (bullet_entries body) (result st)\<rparr>)"
proof (induction body arbitrary: st)
  case Nil
  then show ?case by (simp add: bullet_entries_def add_entries_Nil)
next
  case (Cons l body)
  let ?st1 = "section_line sec (trim l) st"
  have pl: "plain_line l" and rest: "list_all plain_line body" using Cons.prems by auto
  have step: "scan ((l # body) @ rest) st = scan (body @ rest) ?st1"
    using scan_plain [OF pl] Cons.prems(2) by simp
  have cur: "currentSection ?st1 = Some sec"
    using Cons.prems(1,2) by (simp add: section_line_bullet)
  have "scan (body @ rest) ?st1 =
      scan rest (?st1\<lparr>result := add_entries sec (bullet_entries body) (result ?st1)\<rparr>)"
    using Cons.IH [OF Cons.prems(1) cur rest] .
  also have "?st1\<lparr>result := add_entries sec (bullet_entries body) (result ?st1)\<rparr> =
      st\<lparr>result := add_entries sec (bullet_entries (l # body)) (result st)\<rparr>"
    using Cons.prems(1)
    by (simp add: section_line_bullet bullet_entries_def add_entries_append)
  finally show ?case using step by simp
qed


lemma not_sentinel:
  "c \<in> set s \<Longrightarrow> \<not> is_ws c \<Longrightarrow> c \<notin> set IRRELEVANT_INPUT_MESSAGE \<Longrightarrow>
   trim s \<noteq> trim IRRELEVANT_INPUT_MESSAGE"
  using in_set_trim [of c s] set_trim_subset [of IRRELEVANT_INPUT_MESSAGE] by auto

lemma sentinel_no_C: "0x43 \<notin> set IRRELEVANT_INPUT_MESSAGE"
  by code_simp

lemma sentinel_no_O: "0x4F \<notin> set IRRELEVANT_INPUT_MESSAGE"
  by code_simp

lemma section_line_claims:
  "\<exists>xs. claimsFailed (result (section_line sec line st)) = claimsFailed (result st) @ xs"
  by (simp add: section_line_def Let_def)

lemma other_line_claims:
  "\<exists>xs. claimsFailed (result (other_line line st)) = claimsFailed (result st) @ xs"
  by (simp add: other_line_def section_line_claims split: option.splits)

lemma value_line_claims:
  "claimsFailed (result (value_line line v st)) = claimsFailed (result st)"
  by (simp add: value_line_def)

lemma scan_claims_prefix:
  "scan ls st = Inr st' \<Longrightarrow> \<exists>xs. claimsFailed (result st') = claimsFailed (result st) @ xs"
proof (induction ls st rule: scan_induct2)
  case (Nil st)
  then show ?case by simp
next
  case (Other l ls st)
  then obtain xs where "claimsFailed (result st') = claimsFailed (result (other_line (trim l) st)) @ xs"
    by (auto simp: scan_other)
  moreover obtain ys where "claimsFailed (result (other_line (trim l) st)) = claimsFailed (result st) @ ys"
    using other_line_claims by blast
  ultimately show ?case by simp
next
  case (Last l st)
  then show ?case by (simp add: scan_value_last)
next
  case (Value l n ls st)
  then show ?case by (simp add: scan_value value_line_claims)
qed

lemma cleanup_claims: "claimsFailed (cleanup r) = claimsFailed r"
  by (simp add: cleanup_def Let_def)

lemma claims_example_lines:
  "split NL (CLAIMS_EXAMPLE @ post) =
     [lit ''Claims that failed to meet expectations:'', lit ''- Claim A'', lit ''- Claim B''] @
     split NL post"
proof -
  have 1: "split NL (lit ''Claims that failed to meet expectations:'') =
      [lit ''Claims that failed to meet expectations:'']"
    by code_simp
  have 2: "split NL (lit ''- Claim A'') = [lit ''- Claim A'']" by code_simp
  have 3: "split NL (lit ''- Claim B'') = [lit ''- Claim B'']" by code_simp
  show ?thesis
    by (simp add: CLAIMS_EXAMPLE_def split_append_sep 1 2 3)
qed

lemma claims_example_block:
  "\<forall>rest.
     scan (lit ''Claims that failed to meet expectations:'' # lit ''- Claim A'' # lit ''- Claim B'' # rest) st =
     scan rest (st\<lparr>currentSection := Some ClaimsFailed,
                 result := (result st)\<lparr>claimsFailed :=
                    claimsFailed (result st) @ [lit ''Claim A'', lit ''Claim B'']\<rparr>\<rparr>)"
proof -
  have h: "\<not> value_header (trim (lit ''Claims that failed to meet expectations:''))"
    by code_simp
  have o: "other_line (trim (lit ''Claims that failed to meet expectations:'')) st =
      st\<lparr>currentSection := Some ClaimsFailed\<rparr>"
  proof -
    have "\<not> icon_line (trim (lit ''Claims that failed to meet expectations:''))" by code_simp
    moreover have "startsWith (trim (lit ''Claims that failed to meet expectations:''))
      (lit ''Claims that failed to meet expectations:'')" by code_simp
    ultimately show ?thesis by (simp add: other_line_def)
  qed
  have pa: "plain_line (lit ''- Claim A'')" and pb: "plain_line (lit ''- Claim B'')"
    by code_simp+
  have ba: "startsWith (trim (lit ''- Claim A'')) (lit ''- '')"
    and bb: "startsWith (trim (lit ''- Claim B'')) (lit ''- '')" by code_simp+
  have ta: "trim (substring2 (trim (lit ''- Claim A''))) = lit ''Claim A''"
    and tb: "trim (substring2 (trim (lit ''- Claim B''))) = lit ''Claim B''" by code_simp+
  have "scan (lit ''Claims that failed to meet expectations:'' # lit ''- Claim A'' # lit ''- Claim B'' # rest) st =
     scan rest (st\<lparr>currentSection := Some ClaimsFailed,
                 result := (result st)\<lparr>claimsFailed :=
                    claimsFailed (result st) @ [lit ''Claim A'', lit ''Claim B'']\<rparr>\<rparr>)" for rest
    by (simp add: scan_other [OF h] o scan_plain [OF pa] scan_plain [OF pb]
        section_line_def ba bb ta tb Let_def)
  then show ?thesis by blast
qed


lemma section_header_not_icon: "section_header line \<Longrightarrow> \<not> icon_line line"
  by (auto dest!: section_header_hd icon_line_hd)

lemma section_line_claims_kept:
  "sec \<noteq> ClaimsFailed \<Longrightarrow>
   claimsFailed (result (section_line sec line st)) = claimsFailed (result st) \<and>
   currentSection (section_line sec line st) = currentSection st"
  by (simp add: section_line_def Let_def)

lemma other_line_claims_kept:
  assumes "currentSection st \<noteq> Some ClaimsFailed \<or> section_header line"
    and "\<not> startsWith line (lit ''Claims that failed to meet expectations:'')"
  shows "claimsFailed (result (other_line line st)) = claimsFailed (result st) \<and>
    currentSection (other_line line st) \<noteq> Some ClaimsFailed"
proof (cases "section_header line")
  case True
  then have "\<not> icon_line line" by (rule section_header_not_icon)
  then show ?thesis
    using True assms(2) by (auto simp: other_line_def section_header_def)
next
  case False
  then have c: "currentSection st \<noteq> Some ClaimsFailed" using assms(1) by blast
  show ?thesis
  proof (cases "icon_line line")
    case True
    then show ?thesis using c by (simp add: other_line_def)
  next
    case i: False
    show ?thesis
    proof (cases "currentSection st")
      case None
      then show ?thesis using i False by (simp add: other_line_def section_header_def)
    next
      case (Some sec)
      then have "sec \<noteq> ClaimsFailed" using c by simp
      then show ?thesis
        using i False Some section_line_claims_kept [of sec line st]
        by (simp add: other_line_def section_header_def)
    qed
  qed
qed

lemma scan_claims_kept:
  "scan ls st = Inr st' \<Longrightarrow>
   currentSection st \<noteq> Some ClaimsFailed \<or> ls = [] \<or> other_header (trim (hd ls)) \<Longrightarrow>
   list_all (\<lambda>l. \<not> startsWith (trim l) (lit ''Claims that failed to meet expectations:'')) ls \<Longrightarrow>
   claimsFailed (result st') = claimsFailed (result st)"
proof (induction ls st rule: scan_induct2)
  case (Nil st)
  then show ?case by simp
next
  case (Other l ls st)
  have "currentSection st \<noteq> Some ClaimsFailed \<or> section_header (trim l)"
    using Other.prems(2) Other.hyps by (auto simp: other_header_def)
  then have k: "claimsFailed (result (other_line (trim l) st)) = claimsFailed (result st) \<and>
    currentSection (other_line (trim l) st) \<noteq> Some ClaimsFailed"
    using other_line_claims_kept Other.prems(3) by simp
  have "claimsFailed (result st') = claimsFailed (result (other_line (trim l) st))"
    using Other.IH Other.prems k Other.hyps by (simp add: scan_other)
  then show ?case using k by simp
next
  case (Last l st)
  then show ?case by (simp add: scan_value_last)
next
  case (Value l n ls st)
  have "claimsFailed (result st') = claimsFailed (result (value_line (trim l) (trim n) st))"
    using Value.IH Value.prems Value.hyps by (simp add: scan_value value_line_def)
  then show ?case by (simp add: value_line_def)
qed

lemma claims_example_general:
  assumes "pre = [] \<or> last pre = NL"
    and "scan (butlast (split NL pre)) initial_state = Inr st1"
    and "\<not> value_header (trim (last (split NL post)))"
  shows "\<exists>r ys. parseSustainabilityResult (pre @ CLAIMS_EXAMPLE @ post) = Inr (Some r) \<and>
     claimsFailed r = claimsFailed (result st1) @ [lit ''Claim A'', lit ''Claim B''] @ ys"
proof -
  let ?t = "pre @ CLAIMS_EXAMPLE @ post"
  let ?P = "butlast (split NL pre)"
  have c: "0x43 \<in> set ?t" by (simp add: CLAIMS_EXAMPLE_def lit_def)
  have nw: "\<not> is_ws 0x43" by (simp add: is_ws_def)
  have ns: "trim ?t \<noteq> trim IRRELEVANT_INPUT_MESSAGE"
    using not_sentinel [OF c nw sentinel_no_C] .
  have ne: "?t \<noteq> []" by (simp add: CLAIMS_EXAMPLE_def)
  have lines: "split NL ?t =
      ?P @ lit ''Claims that failed to meet expectations:'' # lit ''- Claim A'' # lit ''- Claim B'' #
      split NL post"
    using assms(1) split_line_start [of pre "CLAIMS_EXAMPLE @ post"]
    by (simp add: claims_example_lines)
  let ?st2 = "st1\<lparr>currentSection := Some ClaimsFailed,
                 result := (result st1)\<lparr>claimsFailed :=
                    claimsFailed (result st1) @ [lit ''Claim A'', lit ''Claim B'']\<rparr>\<rparr>"
  obtain st3 where s3: "scan (split NL post) ?st2 = Inr st3"
    using scan_total [of "split NL post" ?st2] assms(3) by blast
  obtain ys where c3: "claimsFailed (result st3) = claimsFailed (result ?st2) @ ys"
    using scan_claims_prefix [OF s3] by blast
  have "scan (split NL ?t) initial_state = Inr st3"
    using scan_append [OF assms(2)] claims_example_block [of st1] s3 by (simp add: lines)
  then have "parseSustainabilityResult ?t = Inr (Some (cleanup (result st3)))"
    using ns ne by (simp add: parseSustainabilityResult_def)
  moreover have "claimsFailed (cleanup (result st3)) =
      claimsFailed (result st1) @ [lit ''Claim A'', lit ''Claim B''] @ ys"
    using c3 by (simp add: cleanup_claims)
  ultimately show ?thesis by blast
qed

lemma claims_example_exact:
  assumes "pre = [] \<or> last pre = NL"
    and "scan (butlast (split NL pre)) initial_state = Inr st1"
    and "split NL post = body @ rest"
    and "list_all plain_line body"
    and "rest = [] \<or> other_header (trim (hd rest))"
    and "list_all (\<lambda>l. \<not> startsWith (trim l) (lit ''Claims that failed to meet expectations:'')) rest"
    and "\<not> value_header (trim (last (split NL post)))"
  shows "\<exists>r. parseSustainabilityResult (pre @ CLAIMS_EXAMPLE @ post) = Inr (Some r) \<and>
     claimsFailed r =
       claimsFailed (result st1) @ [lit ''Claim A'', lit ''Claim B''] @ bullet_entries body"
proof -
  let ?t = "pre @ CLAIMS_EXAMPLE @ post"
  let ?P = "butlast (split NL pre)"
  have c: "0x43 \<in> set ?t" by (simp add: CLAIMS_EXAMPLE_def lit_def)
  have nw: "\<not> is_ws 0x43" by (simp add: is_ws_def)
  have ns: "trim ?t \<noteq> trim IRRELEVANT_INPUT_MESSAGE"
    using not_sentinel [OF c nw sentinel_no_C] .
  have ne: "?t \<noteq> []" by (simp add: CLAIMS_EXAMPLE_def)
  have lines: "split NL ?t =
      ?P @ lit ''Claims that failed to meet expectations:'' # lit ''- Claim A'' # lit ''- Claim B'' #
      body @ rest"
    using assms(1) split_line_start [of pre "CLAIMS_EXAMPLE @ post"]
    by (simp add: claims_example_lines assms(3))
  let ?st2 = "st1\<lparr>currentSection := Some ClaimsFailed,
                 result := (result st1)\<lparr>claimsFailed :=
                    claimsFailed (result st1) @ [lit ''Claim A'', lit ''Claim B'']\<rparr>\<rparr>"
  let ?st3 = "?st2\<lparr>result := add_entries ClaimsFailed (bullet_entries body) (result ?st2)\<rparr>"
  have b: "scan (body @ rest) ?st2 = scan rest ?st3"
    using scan_bullet_block [of ClaimsFailed ?st2 body rest] assms(4)
    by (simp add: bullet_section_def)
  have "rest = [] \<or> \<not> value_header (trim (last rest))"
    using assms(3,7) by (cases "rest = []") auto
  then obtain st4 where s4: "scan rest ?st3 = Inr st4"
    using scan_total [of rest ?st3] by blast
  have "claimsFailed (result st4) = claimsFailed (result ?st3)"
    using scan_claims_kept [OF s4] assms(5,6) by blast
  then have c4: "claimsFailed (result st4) =
      claimsFailed (result st1) @ [lit ''Claim A'', lit ''Claim B''] @ bullet_entries body"
    by simp
  have "scan (split NL ?t) initial_state = Inr st4"
    using scan_append [OF assms(2)] claims_example_block [of st1] b s4 by (simp add: lines)
  then have "parseSustainabilityResult ?t = Inr (Some (cleanup (result st4)))"
    using ns ne by (simp add: parseSustainabilityResult_def)
  moreover have "claimsFailed (cleanup (result st4)) =
      claimsFailed (result st1) @ [lit ''Claim A'', lit ''Claim B''] @ bullet_entries body"
    using c4 by (simp add: cleanup_claims)
  ultimately show ?thesis by blast
qed

section \<open>Bulleted-list sections\<close>

lemma bullet_line_appends:
  "bullet_section sec \<and> currentSection st = Some sec \<and>
   startsWith (trim l) (lit ''- '') \<longrightarrow>
     scan [l] st =
       Inr (st\<lparr>result := add_entries sec [trim (substring2 (trim l))] (result st)\<rparr>) \<and>
     scan (l # ls) st =
       scan ls (st\<lparr>result := add_entries sec [trim (substring2 (trim l))] (result st)\<rparr>)"
proof
  assume a: "bullet_section sec \<and> currentSection st = Some sec \<and>
    startsWith (trim l) (lit ''- '')"
  then have p: "plain_line l" by (simp add: bullet_plain)
  show "scan [l] st =
      Inr (st\<lparr>result := add_entries sec [trim (substring2 (trim l))] (result st)\<rparr>) \<and>
    scan (l # ls) st =
      scan ls (st\<lparr>result := add_entries sec [trim (substring2 (trim l))] (result st)\<rparr>)"
    using a scan_plain [OF p, of ls st] scan_plain [OF p, of "[]" st]
    by (simp add: section_line_bullet)
qed

lemma other_line_ignored:
  "bullet_section sec \<and> currentSection st = Some sec \<and> plain_line l \<and>
   \<not> startsWith (trim l) (lit ''- '') \<longrightarrow>
     scan [l] st = Inr st \<and> scan (l # ls) st = scan ls st"
proof
  assume a: "bullet_section sec \<and> currentSection st = Some sec \<and> plain_line l \<and>
    \<not> startsWith (trim l) (lit ''- '')"
  then show "scan [l] st = Inr st \<and> scan (l # ls) st = scan ls st"
    using scan_plain [of l ls st] scan_plain [of l "[]" st]
    by (simp add: section_line_bullet)
qed

lemma bullet_icon_line_sets_icon:
  "bullet_section sec \<and> currentSection st = Some sec \<and> icon_line (trim l) \<longrightarrow>
     scan [l] st =
       Inr (st\<lparr>result := (result st)\<lparr>icon := first_token (trim l)\<rparr>\<rparr>) \<and>
     scan (l # ls) st =
       scan ls (st\<lparr>result := (result st)\<lparr>icon := first_token (trim l)\<rparr>\<rparr>)"
  using scan_icon [of l ls st] scan_icon [of l "[]" st] by simp

lemma bullet_block_appends:
  "bullet_section sec \<and> currentSection st = Some sec \<and> list_all plain_line block \<longrightarrow>
     scan block st =
       Inr (st\<lparr>result := add_entries sec (bullet_entries block) (result st)\<rparr>) \<and>
     scan (block @ after) st =
       scan after (st\<lparr>result := add_entries sec (bullet_entries block) (result st)\<rparr>)"
proof
  assume a: "bullet_section sec \<and> currentSection st = Some sec \<and> list_all plain_line block"
  then show "scan block st =
      Inr (st\<lparr>result := add_entries sec (bullet_entries block) (result st)\<rparr>) \<and>
    scan (block @ after) st =
      scan after (st\<lparr>result := add_entries sec (bullet_entries block) (result st)\<rparr>)"
    using scan_bullet_block [of sec st block after] scan_bullet_block [of sec st block "[]"]
    by simp
qed

lemma claims_example_alone:
  "parseSustainabilityResult CLAIMS_EXAMPLE =
     Inr (Some (initial_result\<lparr>claimsFailed := [lit ''Claim A'', lit ''Claim B'']\<rparr>))"
  by code_simp

lemma claims_example_entries:
  "(pre = [] \<or> last pre = NL) \<and>
   scan (butlast (split NL pre)) initial_state = Inr st1 \<and>
   \<not> value_header (trim (last (split NL post))) \<longrightarrow>
     (\<exists>r ys. parseSustainabilityResult (pre @ CLAIMS_EXAMPLE @ post) = Inr (Some r) \<and>
        claimsFailed r = claimsFailed (result st1) @ [lit ''Claim A'', lit ''Claim B''] @ ys)"
  using claims_example_general [of pre st1 post] by blast

lemma claims_example_section:
  "(pre = [] \<or> last pre = NL) \<and>
   scan (butlast (split NL pre)) initial_state = Inr st1 \<and>
   split NL post = body @ rest \<and> list_all plain_line body \<and>
   (rest = [] \<or> other_header (trim (hd rest))) \<and>
   list_all (\<lambda>l. \<not> startsWith (trim l) (lit ''Claims that failed to meet expectations:'')) rest \<and>
   \<not> value_header (trim (last (split NL post))) \<longrightarrow>
     (\<exists>r. parseSustainabilityResult (pre @ CLAIMS_EXAMPLE @ post) = Inr (Some r) \<and>
        claimsFailed r =
          claimsFailed (result st1) @ [lit ''Claim A'', lit ''Claim B''] @ bullet_entries body)"
  using claims_example_exact [of pre st1 post body rest] by blast

text \<open>
  C3, as the code has it. While \<open>currentSection\<close> is one of the four bulleted-list
  sections, a line whose trimmed text starts with \<open>- \<close> appends the trimmed remainder
  to the list of that section and leaves the cursor: the loop run on that line alone
  ends in that state, and the loop goes on from that state with the lines after it. A
  plain line that does not start with \<open>- \<close> changes nothing. Icon lines and header
  lines are not plain: an icon line sets the icon and nothing else, header lines are
  taken by the header branches. Hence a block of plain lines appends its bullet
  entries in input order.

  The input that is exactly the example text yields the two entries \<open>Claim A\<close> and
  \<open>Claim B\<close>. Let the example text start at the beginning of a line that the loop
  reaches (the loop returns on the lines before it, so that none of them takes the
  header as its value), and let the last line of the input be no single-value header.
  Then the parser returns a record whose \<open>claimsFailed\<close> is the list collected before
  the text, then \<open>Claim A\<close> and \<open>Claim B\<close>, then further entries. When the lines after
  the text are plain lines up to a header other than
  \<open>Claims that failed to meet expectations:\<close>, and no later line starts with that
  header, the further entries are exactly the bullets among these plain lines.
\<close>

theorem bullet_list_sections:
  "(bullet_section sec \<and> currentSection st = Some sec \<and>
   startsWith (trim l) (lit ''- '') \<longrightarrow>
     scan [l] st =
       Inr (st\<lparr>result := add_entries sec [trim (substring2 (trim l))] (result st)\<rparr>) \<and>
     scan (l # ls) st =
       scan ls (st\<lparr>result := add_entries sec [trim (substring2 (trim l))] (result st)\<rparr>)) \<and>
   (bullet_section sec \<and> currentSection st = Some sec \<and> plain_line l \<and>
   \<not> startsWith (trim l) (lit ''- '') \<longrightarrow>
     scan [l] st = Inr st \<and> scan (l # ls) st = scan ls st) \<and>
   (bullet_section sec \<and> currentSection st = Some sec \<and> icon_line (trim l) \<longrightarrow>
     scan [l] st =
       Inr (st\<lparr>result := (result st)\<lparr>icon := first_token (trim l)\<rparr>\<rparr>) \<and>
     scan (l # ls) st =
       scan ls (st\<lparr>result := (result st)\<lparr>icon := first_token (trim l)\<rparr>\<rparr>)) \<and>
   (bullet_section sec \<and> currentSection st = Some sec \<and> list_all plain_line block \<longrightarrow>
     scan block st =
       Inr (st\<lparr>result := add_entries sec (bullet_entries block) (result st)\<rparr>) \<and>
     scan (block @ after) st =
       scan after (st\<lparr>result := add_entries sec (bullet_entries block) (result st)\<rparr>)) \<and>
   parseSustainabilityResult CLAIMS_EXAMPLE =
     Inr (Some (initial_result\<lparr>claimsFailed := [lit ''Claim A'', lit ''Claim B'']\<rparr>)) \<and>
   ((pre = [] \<or> last pre = NL) \<and>
   scan (butlast (split NL pre)) initial_state = Inr st1 \<and>
   \<not> value_header (trim (last (split NL post))) \<longrightarrow>
     (\<exists>r ys. parseSustainabilityResult (pre @ CLAIMS_EXAMPLE @ post) = Inr (Some r) \<and>
        claimsFailed r = claimsFailed (result st1) @ [lit ''Claim A'', lit ''Claim B''] @ ys)) \<and>
   ((pre = [] \<or> last pre = NL) \<and>
   scan (butlast (split NL pre)) initial_state = Inr st1 \<and>
   split NL post = body @ rest \<and> list_all plain_line body \<and>
   (rest = [] \<or> other_header (trim (hd rest))) \<and>
   list_all (\<lambda>l. \<not> startsWith (trim l) (lit ''Claims that failed to meet expectations:'')) rest \<and>
   \<not> value_header (trim (last (split NL post))) \<longrightarrow>
     (\<exists>r. parseSustainabilityResult (pre @ CLAIMS_EXAMPLE @ post) = Inr (Some r) \<and>
        claimsFailed r =
          claimsFailed (result st1) @ [lit ''Claim A'', lit ''Claim B''] @ bullet_entries body))"
  by (rule conjI, rule bullet_line_appends, rule conjI, rule other_line_ignored,
      rule conjI, rule bullet_icon_line_sets_icon, rule conjI, rule bullet_block_appends,
      rule conjI, rule claims_example_alone, rule conjI, rule claims_example_entries,
      rule claims_example_section)

theorem bullet_list_sections_witness:
  "((bullet_section ClaimsFailed \<and> currentSection (initial_state\<lparr>currentSection := Some ClaimsFailed\<rparr>) = Some ClaimsFailed \<and>
   startsWith (trim (lit '' - Claim A '')) (lit ''- '')) \<and>
   (bullet_section ClaimsFailed \<and> currentSection (initial_state\<lparr>currentSection := Some ClaimsFailed\<rparr>) = Some ClaimsFailed \<and> list_all plain_line ([lit ''- Claim A'', lit ''(see below)'', lit ''- Claim B''])) \<and>
   ((RESPONSE_BEFORE_CLAIMS = [] \<or> last RESPONSE_BEFORE_CLAIMS = NL) \<and>
   scan (butlast (split NL RESPONSE_BEFORE_CLAIMS)) initial_state = Inr (initial_state\<lparr>result := initial_result\<lparr>icon := ICON_CHECK,
     overallVerdict := lit ''Low Greenwashing Risk'', greenwashingRisk := lit ''10% (Low)''\<rparr>\<rparr>) \<and>
   \<not> value_header (trim (last (split NL RESPONSE_AFTER_CLAIMS)))) \<and>
   ((RESPONSE_BEFORE_CLAIMS = [] \<or> last RESPONSE_BEFORE_CLAIMS = NL) \<and>
   scan (butlast (split NL RESPONSE_BEFORE_CLAIMS)) initial_state = Inr (initial_state\<lparr>result := initial_result\<lparr>icon := ICON_CHECK,
     overallVerdict := lit ''Low Greenwashing Risk'', greenwashingRisk := lit ''10% (Low)''\<rparr>\<rparr>) \<and>
   split NL RESPONSE_AFTER_CLAIMS = ([[]]) @ ([lit ''Why these claims failed:'', lit ''- Not supported by the ingredients'', []]) \<and> list_all plain_line ([[]]) \<and>
   (([lit ''Why these claims failed:'', lit ''- Not supported by the ingredients'', []]) = [] \<or> other_header (trim (hd ([lit ''Why these claims failed:'', lit ''- Not supported by the ingredients'', []])))) \<and>
   list_all (\<lambda>l. \<not> startsWith (trim l) (lit ''Claims that failed to meet expectations:'')) ([lit ''Why these claims failed:'', lit ''- Not supported by the ingredients'', []]) \<and>
   \<not> value_header (trim (last (split NL RESPONSE_AFTER_CLAIMS)))) \<and>
   (bullet_section ClaimsFailed \<and> currentSection (initial_state\<lparr>currentSection := Some ClaimsFailed\<rparr>) = Some ClaimsFailed \<and> plain_line (lit ''(see below)'') \<and>
   \<not> startsWith (trim (lit ''(see below)'')) (lit ''- '')) \<and>
   (bullet_section ClaimsFailed \<and> currentSection (initial_state\<lparr>currentSection := Some ClaimsFailed\<rparr>) = Some ClaimsFailed \<and> icon_line (trim (ICON_CROSS @ lit '' Misleading'')))) \<and>
   (scan [(lit '' - Claim A '')] (initial_state\<lparr>currentSection := Some ClaimsFailed\<rparr>) =
     Inr ((initial_state\<lparr>currentSection := Some ClaimsFailed\<rparr>)\<lparr>result := add_entries ClaimsFailed [trim (substring2 (trim (lit '' - Claim A '')))] (result (initial_state\<lparr>currentSection := Some ClaimsFailed\<rparr>))\<rparr>) \<and>
   scan ((lit '' - Claim A '') # ([lit ''Next line.''])) (initial_state\<lparr>currentSection := Some ClaimsFailed\<rparr>) =
     scan ([lit ''Next line.'']) ((initial_state\<lparr>currentSection := Some ClaimsFailed\<rparr>)\<lparr>result := add_entries ClaimsFailed [trim (substring2 (trim (lit '' - Claim A '')))] (result (initial_state\<lparr>currentSection := Some ClaimsFailed\<rparr>))\<rparr>)) \<and>
   (scan ([lit ''- Claim A'', lit ''(see below)'', lit ''- Claim B'']) (initial_state\<lparr>currentSection := Some ClaimsFailed\<rparr>) =
     Inr ((initial_state\<lparr>currentSection := Some ClaimsFailed\<rparr>)\<lparr>result := add_entries ClaimsFailed (bullet_entries ([lit ''- Claim A'', lit ''(see below)'', lit ''- Claim B''])) (result (initial_state\<lparr>currentSection := Some ClaimsFailed\<rparr>))\<rparr>) \<and>
   scan (([lit ''- Claim A'', lit ''(see below)'', lit ''- Claim B'']) @ ([lit ''Next line.''])) (initial_state\<lparr>currentSection := Some ClaimsFailed\<rparr>) =
     scan ([lit ''Next line.'']) ((initial_state\<lparr>currentSection := Some ClaimsFailed\<rparr>)\<lparr>result := add_entries ClaimsFailed (bullet_entries ([lit ''- Claim A'', lit ''(see below)'', lit ''- Claim B''])) (result (initial_state\<lparr>currentSection := Some ClaimsFailed\<rparr>))\<rparr>)) \<and>
   ((\<exists>r ys. parseSustainabilityResult (RESPONSE_BEFORE_CLAIMS @ CLAIMS_EXAMPLE @ RESPONSE_AFTER_CLAIMS) = Inr (Some r) \<and>
      claimsFailed r = claimsFailed (result (initial_state\<lparr>result := initial_result\<lparr>icon := ICON_CHECK,
     overallVerdict := lit ''Low Greenwashing Risk'', greenwashingRisk := lit ''10% (Low)''\<rparr>\<rparr>)) @ [lit ''Claim A'', lit ''Claim B''] @ ys)) \<and>
   ((\<exists>r. parseSustainabilityResult (RESPONSE_BEFORE_CLAIMS @ CLAIMS_EXAMPLE @ RESPONSE_AFTER_CLAIMS) = Inr (Some r) \<and>
      claimsFailed r =
        claimsFailed (result (initial_state\<lparr>result := initial_result\<lparr>icon := ICON_CHECK,
     overallVerdict := lit ''Low Greenwashing Risk'', greenwashingRisk := lit ''10% (Low)''\<rparr>\<rparr>)) @ [lit ''Claim A'', lit ''Claim B''] @ bullet_entries ([[]]))) \<and>
   (scan [(lit ''(see below)'')] (initial_state\<lparr>currentSection := Some ClaimsFailed\<rparr>) = Inr (initial_state\<lparr>currentSection := Some ClaimsFailed\<rparr>) \<and> scan ((lit ''(see below)'') # ([lit ''Next line.''])) (initial_state\<lparr>currentSection := Some ClaimsFailed\<rparr>) = scan ([lit ''Next line.'']) (initial_state\<lparr>currentSection := Some ClaimsFailed\<rparr>)) \<and>
   (scan [(ICON_CROSS @ lit '' Misleading'')] (initial_state\<lparr>currentSection := Some ClaimsFailed\<rparr>) =
     Inr ((initial_state\<lparr>currentSection := Some ClaimsFailed\<rparr>)\<lparr>result := (result (initial_state\<lparr>currentSection := Some ClaimsFailed\<rparr>))\<lparr>icon := first_token (trim (ICON_CROSS @ lit '' Misleading''))\<rparr>\<rparr>) \<and>
   scan ((ICON_CROSS @ lit '' Misleading'') # ([lit ''Next line.''])) (initial_state\<lparr>currentSection := Some ClaimsFailed\<rparr>) =
     scan ([lit ''Next line.'']) ((initial_state\<lparr>currentSection := Some ClaimsFailed\<rparr>)\<lparr>result := (result (initial_state\<lparr>currentSection := Some ClaimsFailed\<rparr>))\<lparr>icon := first_token (trim (ICON_CROSS @ lit '' Misleading''))\<rparr>\<rparr>))"
proof -
  have h: "(bullet_section ClaimsFailed \<and> currentSection (initial_state\<lparr>currentSection := Some ClaimsFailed\<rparr>) = Some ClaimsFailed \<and>
    startsWith (trim (lit '' - Claim A '')) (lit ''- '')) \<and>
    (bullet_section ClaimsFailed \<and> currentSection (initial_state\<lparr>currentSection := Some ClaimsFailed\<rparr>) = Some ClaimsFailed \<and> list_all plain_line ([lit ''- Claim A'', lit ''(see below)'', lit ''- Claim B''])) \<and>
    ((RESPONSE_BEFORE_CLAIMS = [] \<or> last RESPONSE_BEFORE_CLAIMS = NL) \<and>
    scan (butlast (split NL RESPONSE_BEFORE_CLAIMS)) initial_state = Inr (initial_state\<lparr>result := initial_result\<lparr>icon := ICON_CHECK,
      overallVerdict := lit ''Low Greenwashing Risk'', greenwashingRisk := lit ''10% (Low)''\<rparr>\<rparr>) \<and>
    \<not> value_header (trim (last (split NL RESPONSE_AFTER_CLAIMS)))) \<and>
    ((RESPONSE_BEFORE_CLAIMS = [] \<or> last RESPONSE_BEFORE_CLAIMS = NL) \<and>
    scan (butlast (split NL RESPONSE_BEFORE_CLAIMS)) initial_state = Inr (initial_state\<lparr>result := initial_result\<lparr>icon := ICON_CHECK,
      overallVerdict := lit ''Low Greenwashing Risk'', greenwashingRisk := lit ''10% (Low)''\<rparr>\<rparr>) \<and>
    split NL RESPONSE_AFTER_CLAIMS = ([[]]) @ ([lit ''Why these claims failed:'', lit ''- Not supported by the ingredients'', []]) \<and> list_all plain_line ([[]]) \<and>
    (([lit ''Why these claims failed:'', lit ''- Not supported by the ingredients'', []]) = [] \<or> other_header (trim (hd ([lit ''Why these claims failed:'', lit ''- Not supported by the ingredients'', []])))) \<and>
    list_all (\<lambda>l. \<not> startsWith (trim l) (lit ''Claims that failed to meet expectations:'')) ([lit ''Why these claims failed:'', lit ''- Not supported by the ingredients'', []]) \<and>
    \<not> value_header (trim (last (split NL RESPONSE_AFTER_CLAIMS)))) \<and>
    (bullet_section ClaimsFailed \<and> currentSection (initial_state\<lparr>currentSection := Some ClaimsFailed\<rparr>) = Some ClaimsFailed \<and> plain_line (lit ''(see below)'') \<and>
    \<not> startsWith (trim (lit ''(see below)'')) (lit ''- '')) \<and>
    (bullet_section ClaimsFailed \<and> currentSection (initial_state\<lparr>currentSection := Some ClaimsFailed\<rparr>) = Some ClaimsFailed \<and> icon_line (trim (ICON_CROSS @ lit '' Misleading'')))"
    by code_simp
  note i0 = bullet_list_sections
    [where sec = "ClaimsFailed" and
      st = "initial_state\<lparr>currentSection := Some ClaimsFailed\<rparr>" and
      l = "lit '' - Claim A ''" and
      ls = "[lit ''Next line.'']" and
      block = "[lit ''- Claim A'', lit ''(see below)'', lit ''- Claim B'']" and
      after = "[lit ''Next line.'']" and
      pre = "RESPONSE_BEFORE_CLAIMS" and
      ?st1.0 = "initial_state\<lparr>result := initial_result\<lparr>icon := ICON_CHECK,
  overallVerdict := lit ''Low Greenwashing Risk'', greenwashingRisk := lit ''10% (Low)''\<rparr>\<rparr>" and
      post = "RESPONSE_AFTER_CLAIMS" and
      body = "[[]]" and
      rest = "[lit ''Why these claims failed:'', lit ''- Not supported by the ingredients'', []]"]
  note i1 = bullet_list_sections
    [where sec = "ClaimsFailed" and
      st = "initial_state\<lparr>currentSection := Some ClaimsFailed\<rparr>" and
      l = "lit ''(see below)''" and
      ls = "[lit ''Next line.'']" and
      block = "[lit ''- Claim A'', lit ''(see below)'', lit ''- Claim B'']" and
      after = "[lit ''Next line.'']" and
      pre = "RESPONSE_BEFORE_CLAIMS" and
      ?st1.0 = "initial_state\<lparr>result := initial_result\<lparr>icon := ICON_CHECK,
  overallVerdict := lit ''Low Greenwashing Risk'', greenwashingRisk := lit ''10% (Low)''\<rparr>\<rparr>" and
      post = "RESPONSE_AFTER_CLAIMS" and
      body = "[[]]" and
      rest = "[lit ''Why these claims failed:'', lit ''- Not supported by the ingredients'', []]"]
  note i2 = bullet_list_sections
    [where sec = "ClaimsFailed" and
      st = "initial_state\<lparr>currentSection := Some ClaimsFailed\<rparr>" and
      l = "ICON_CROSS @ lit '' Misleading''" and
      ls = "[lit ''Next line.'']" and
      block = "[lit ''- Claim A'', lit ''(see below)'', lit ''- Claim B'']" and
      after = "[lit ''Next line.'']" and
      pre = "RESPONSE_BEFORE_CLAIMS" and
      ?st1.0 = "initial_state\<lparr>result := initial_result\<lparr>icon := ICON_CHECK,
  overallVerdict := lit ''Low Greenwashing Risk'', greenwashingRisk := lit ''10% (Low)''\<rparr>\<rparr>" and
      post = "RESPONSE_AFTER_CLAIMS" and
      body = "[[]]" and
      rest = "[lit ''Why these claims failed:'', lit ''- Not supported by the ingredients'', []]"]
  note c0 = mp [OF i0 [THEN conjunct1] h [THEN conjunct1]]
  note c1 = mp [OF i0 [THEN conjunct2, THEN conjunct2, THEN conjunct2, THEN conjunct1] h [THEN conjunct2, THEN conjunct1]]
  note c2 = mp [OF i0 [THEN conjunct2, THEN conjunct2, THEN conjunct2, THEN conjunct2, THEN conjunct2, THEN conjunct1] h [THEN conjunct2, THEN conjunct2, THEN conjunct1]]
  note c3 = mp [OF i0 [THEN conjunct2, THEN conjunct2, THEN conjunct2, THEN conjunct2, THEN conjunct2, THEN conjunct2] h [THEN conjunct2, THEN conjunct2, THEN conjunct2, THEN conjunct1]]
  note c4 = mp [OF i1 [THEN conjunct2, THEN conjunct1] h [THEN conjunct2, THEN conjunct2, THEN conjunct2, THEN conjunct2, THEN conjunct1]]
  note c5 = mp [OF i2 [THEN conjunct2, THEN conjunct2, THEN conjunct1] h [THEN conjunct2, THEN conjunct2, THEN conjunct2, THEN conjunct2, THEN conjunct2]]
  show ?thesis
    by (rule conjI [OF h conjI [OF c0 conjI [OF c1 conjI [OF c2 conjI [OF c3 conjI [OF c4 c5]]]]]])
qed

text \<open>
  Four inputs that contain the example text or a line of a bulleted-list section: one
  goes on with a third bullet and yields three entries; in one the header follows
  \<open>## \<close> on its line, is not recognised, and the list stays empty; in one the line
  \<open>Overall Verdict:\<close> inside the section clears the cursor, so that the bullet after
  its value is not collected; in one an icon line inside the section is not ignored
  but sets the icon.
\<close>

theorem claims_example_counterexample:
  "parseSustainabilityResult (CLAIMS_EXAMPLE @ lit ''- Claim C'' @ [NL]) =
     Inr (Some (initial_result\<lparr>claimsFailed := [lit ''Claim A'', lit ''Claim B'', lit ''Claim C'']\<rparr>)) \<and>
   parseSustainabilityResult (lit ''## '' @ CLAIMS_EXAMPLE) = Inr (Some initial_result) \<and>
   claimsFailed initial_result = [] \<and>
   parseSustainabilityResult
     (lit ''Claims that failed to meet expectations:'' @ [NL] @ lit ''- Claim A'' @ [NL] @
      lit ''Overall Verdict:'' @ [NL] @ lit ''High Greenwashing Risk'' @ [NL] @
      lit ''- Claim B'' @ [NL]) =
     Inr (Some (initial_result\<lparr>overallVerdict := lit ''High Greenwashing Risk'',
                               claimsFailed := [lit ''Claim A'']\<rparr>)) \<and>
   parseSustainabilityResult
     (lit ''Claims that failed to meet expectations:'' @ [NL] @ ICON_CROSS @ lit '' Misleading'' @ [NL] @
      lit ''- Claim A'' @ [NL]) =
     Inr (Some (initial_result\<lparr>icon := ICON_CROSS, claimsFailed := [lit ''Claim A'']\<rparr>))"
  by code_simp

lemma trim_Nil: "trim [] = []"
  by (simp add: trim_def)

lemma scan_moreDetails_block:
  "currentSection st = Some MoreDetails \<Longrightarrow> list_all plain_line body \<Longrightarrow>
   scan (body @ rest) st =
     scan rest (st\<lparr>result := (result st)\<lparr>moreDetails := moreDetails (result st) @ block_text body\<rparr>\<rparr>)"
proof (induction body arbitrary: st)
  case Nil
  then show ?case by (simp add: block_text_def)
next
  case (Cons l body)
  let ?st1 = "section_line MoreDetails (trim l) st"
  have pl: "plain_line l" and rest: "list_all plain_line body" using Cons.prems by auto
  have step: "scan ((l # body) @ rest) st = scan (body @ rest) ?st1"
    using scan_plain [OF pl] Cons.prems(1) by simp
  have cur: "currentSection ?st1 = Some MoreDetails"
    using Cons.prems(1) by (simp add: section_line_def Let_def)
  have "scan (body @ rest) ?st1 =
      scan rest (?st1\<lparr>result := (result ?st1)\<lparr>moreDetails := moreDetails (result ?st1) @ block_text body\<rparr>\<rparr>)"
    using Cons.IH [OF cur rest] .
  also have "?st1\<lparr>result := (result ?st1)\<lparr>moreDetails := moreDetails (result ?st1) @ block_text body\<rparr>\<rparr> =
      st\<lparr>result := (result st)\<lparr>moreDetails := moreDetails (result st) @ block_text (l # body)\<rparr>\<rparr>"
    by (simp add: section_line_def Let_def block_text_def)
  finally show ?case using step by simp
qed

lemma parse_record_run:
  "parseSustainabilityResult rawText = Inr (Some r) \<Longrightarrow>
   \<exists>st. scan (split NL rawText) initial_state = Inr st \<and> r = cleanup (result st)"
  by (auto simp: parseSustainabilityResult_def split: if_splits sum.splits)

section \<open>The free-text section\<close>

lemma more_line_appends:
  "currentSection st = Some MoreDetails \<and> plain_line l \<and> trim l \<noteq> [] \<longrightarrow>
     scan [l] st =
       Inr (st\<lparr>result := (result st)\<lparr>moreDetails := moreDetails (result st) @ trim l @ [NL]\<rparr>\<rparr>) \<and>
     scan (l # ls) st =
       scan ls (st\<lparr>result := (result st)\<lparr>moreDetails := moreDetails (result st) @ trim l @ [NL]\<rparr>\<rparr>)"
proof
  assume "currentSection st = Some MoreDetails \<and> plain_line l \<and> trim l \<noteq> []"
  then show "scan [l] st =
      Inr (st\<lparr>result := (result st)\<lparr>moreDetails := moreDetails (result st) @ trim l @ [NL]\<rparr>\<rparr>) \<and>
    scan (l # ls) st =
      scan ls (st\<lparr>result := (result st)\<lparr>moreDetails := moreDetails (result st) @ trim l @ [NL]\<rparr>\<rparr>)"
    using scan_plain [of l ls st] scan_plain [of l "[]" st]
    by (simp add: section_line_def Let_def)
qed

lemma more_empty_line_ignored:
  "currentSection st = Some MoreDetails \<and> trim l = [] \<longrightarrow>
     scan [l] st = Inr st \<and> scan (l # ls) st = scan ls st"
proof
  assume a: "currentSection st = Some MoreDetails \<and> trim l = []"
  then have "plain_line l"
    unfolding plain_line_def
    by (auto dest!: icon_line_hd value_header_hd section_header_hd)
  then show "scan [l] st = Inr st \<and> scan (l # ls) st = scan ls st"
    using a scan_plain [of l ls st] scan_plain [of l "[]" st]
    by (simp add: section_line_def Let_def)
qed

lemma more_icon_line_sets_icon:
  "currentSection st = Some MoreDetails \<and> icon_line (trim l) \<longrightarrow>
     scan [l] st =
       Inr (st\<lparr>result := (result st)\<lparr>icon := first_token (trim l)\<rparr>\<rparr>) \<and>
     scan (l # ls) st =
       scan ls (st\<lparr>result := (result st)\<lparr>icon := first_token (trim l)\<rparr>\<rparr>)"
  using scan_icon [of l ls st] scan_icon [of l "[]" st] by simp

lemma more_block_appends:
  "currentSection st = Some MoreDetails \<and> list_all plain_line block \<longrightarrow>
     scan block st =
       Inr (st\<lparr>result := (result st)\<lparr>moreDetails := moreDetails (result st) @ block_text block\<rparr>\<rparr>) \<and>
     scan (block @ after) st =
       scan after (st\<lparr>result := (result st)\<lparr>moreDetails := moreDetails (result st) @ block_text block\<rparr>\<rparr>)"
proof
  assume "currentSection st = Some MoreDetails \<and> list_all plain_line block"
  then show "scan block st =
      Inr (st\<lparr>result := (result st)\<lparr>moreDetails := moreDetails (result st) @ block_text block\<rparr>\<rparr>) \<and>
    scan (block @ after) st =
      scan after (st\<lparr>result := (result st)\<lparr>moreDetails := moreDetails (result st) @ block_text block\<rparr>\<rparr>)"
    using scan_moreDetails_block [of st block after] scan_moreDetails_block [of st block "[]"]
    by simp
qed

lemma more_trimmed_after_loop:
  "parseSustainabilityResult rawText = Inr (Some r) \<longrightarrow>
     (\<exists>st'. scan (split NL rawText) initial_state = Inr st' \<and>
        moreDetails r = trim (moreDetails (result st')))"
proof
  assume "parseSustainabilityResult rawText = Inr (Some r)"
  then obtain st' where st': "scan (split NL rawText) initial_state = Inr st'"
    and r: "r = cleanup (result st')"
    using parse_record_run by blast
  have "moreDetails r = trim (moreDetails (result st'))"
    by (simp add: r cleanup_def Let_def trim_Nil)
  then show "\<exists>st'. scan (split NL rawText) initial_state = Inr st' \<and>
      moreDetails r = trim (moreDetails (result st'))"
    using st' by blast
qed

text \<open>
  C7, as the code has it. While \<open>currentSection\<close> is \<open>moreDetails\<close>, a plain line whose
  trimmed text is not empty is appended, trimmed and followed by a newline, to
  \<open>moreDetails\<close>: the loop run on that line alone ends in that state, and the loop goes
  on from that state with the lines after it. A line that is empty after trimming
  changes nothing. An icon line sets the icon and is not appended; header lines are
  taken by the header branches. Hence a block of plain lines appends its non-empty
  lines in order. The \<open>moreDetails\<close> of the returned record is the accumulator of the
  loop, trimmed once after the loop.
\<close>

theorem moreDetails_section:
  "(currentSection st = Some MoreDetails \<and> plain_line l \<and> trim l \<noteq> [] \<longrightarrow>
     scan [l] st =
       Inr (st\<lparr>result := (result st)\<lparr>moreDetails := moreDetails (result st) @ trim l @ [NL]\<rparr>\<rparr>) \<and>
     scan (l # ls) st =
       scan ls (st\<lparr>result := (result st)\<lparr>moreDetails := moreDetails (result st) @ trim l @ [NL]\<rparr>\<rparr>)) \<and>
   (currentSection st = Some MoreDetails \<and> trim l = [] \<longrightarrow>
     scan [l] st = Inr st \<and> scan (l # ls) st = scan ls st) \<and>
   (currentSection st = Some MoreDetails \<and> icon_line (trim l) \<longrightarrow>
     scan [l] st =
       Inr (st\<lparr>result := (result st)\<lparr>icon := first_token (trim l)\<rparr>\<rparr>) \<and>
     scan (l # ls) st =
       scan ls (st\<lparr>result := (result st)\<lparr>icon := first_token (trim l)\<rparr>\<rparr>)) \<and>
   (currentSection st = Some MoreDetails \<and> list_all plain_line block \<longrightarrow>
     scan block st =
       Inr (st\<lparr>result := (result st)\<lparr>moreDetails := moreDetails (result st) @ block_text block\<rparr>\<rparr>) \<and>
     scan (block @ after) st =
       scan after (st\<lparr>result := (result st)\<lparr>moreDetails := moreDetails (result st) @ block_text block\<rparr>\<rparr>)) \<and>
   (parseSustainabilityResult rawText = Inr (Some r) \<longrightarrow>
     (\<exists>st'. scan (split NL rawText) initial_state = Inr st' \<and>
        moreDetails r = trim (moreDetails (result st'))))"
  by (rule conjI, rule more_line_appends, rule conjI, rule more_empty_line_ignored,
      rule conjI, rule more_icon_line_sets_icon, rule conjI, rule more_block_appends,
      rule more_trimmed_after_loop)

theorem moreDetails_section_witness:
  "((currentSection (initial_state\<lparr>currentSection := Some MoreDetails\<rparr>) = Some MoreDetails \<and> plain_line (lit ''  Palm oil is widely used. '') \<and> trim (lit ''  Palm oil is widely used. '') \<noteq> []) \<and>
   (currentSection (initial_state\<lparr>currentSection := Some MoreDetails\<rparr>) = Some MoreDetails \<and> list_all plain_line ([lit ''Palm oil.'', lit '''', lit '' Fragrance. ''])) \<and>
   (parseSustainabilityResult (lit ''More details:'' @ [NL] @ lit ''Palm oil.'' @ [NL] @ [NL] @ lit '' Fragrance. '' @ [NL]) = Inr (Some (initial_result\<lparr>moreDetails := lit ''Palm oil.'' @ [NL] @ lit ''Fragrance.''\<rparr>))) \<and>
   (currentSection (initial_state\<lparr>currentSection := Some MoreDetails\<rparr>) = Some MoreDetails \<and> trim (lit ''   '') = []) \<and>
   (currentSection (initial_state\<lparr>currentSection := Some MoreDetails\<rparr>) = Some MoreDetails \<and> icon_line (trim (ICON_CHECK @ lit '' Certified organic.'')))) \<and>
   (scan [(lit ''  Palm oil is widely used. '')] (initial_state\<lparr>currentSection := Some MoreDetails\<rparr>) =
     Inr ((initial_state\<lparr>currentSection := Some MoreDetails\<rparr>)\<lparr>result := (result (initial_state\<lparr>currentSection := Some MoreDetails\<rparr>))\<lparr>moreDetails := moreDetails (result (initial_state\<lparr>currentSection := Some MoreDetails\<rparr>)) @ trim (lit ''  Palm oil is widely used. '') @ [NL]\<rparr>\<rparr>) \<and>
   scan ((lit ''  Palm oil is widely used. '') # ([lit ''Next line.''])) (initial_state\<lparr>currentSection := Some MoreDetails\<rparr>) =
     scan ([lit ''Next line.'']) ((initial_state\<lparr>currentSection := Some MoreDetails\<rparr>)\<lparr>result := (result (initial_state\<lparr>currentSection := Some MoreDetails\<rparr>))\<lparr>moreDetails := moreDetails (result (initial_state\<lparr>currentSection := Some MoreDetails\<rparr>)) @ trim (lit ''  Palm oil is widely used. '') @ [NL]\<rparr>\<rparr>)) \<and>
   (scan ([lit ''Palm oil.'', lit '''', lit '' Fragrance. '']) (initial_state\<lparr>currentSection := Some MoreDetails\<rparr>) =
     Inr ((initial_state\<lparr>currentSection := Some MoreDetails\<rparr>)\<lparr>result := (result (initial_state\<lparr>currentSection := Some MoreDetails\<rparr>))\<lparr>moreDetails := moreDetails (result (initial_state\<lparr>currentSection := Some MoreDetails\<rparr>)) @ block_text ([lit ''Palm oil.'', lit '''', lit '' Fragrance. ''])\<rparr>\<rparr>) \<and>
   scan (([lit ''Palm oil.'', lit '''', lit '' Fragrance. '']) @ ([lit ''Next line.''])) (initial_state\<lparr>currentSection := Some MoreDetails\<rparr>) =
     scan ([lit ''Next line.'']) ((initial_state\<lparr>currentSection := Some MoreDetails\<rparr>)\<lparr>result := (result (initial_state\<lparr>currentSection := Some MoreDetails\<rparr>))\<lparr>moreDetails := moreDetails (result (initial_state\<lparr>currentSection := Some MoreDetails\<rparr>)) @ block_text ([lit ''Palm oil.'', lit '''', lit '' Fragrance. ''])\<rparr>\<rparr>)) \<and>
   ((\<exists>st'. scan (split NL (lit ''More details:'' @ [NL] @ lit ''Palm oil.'' @ [NL] @ [NL] @ lit '' Fragrance. '' @ [NL])) initial_state = Inr st' \<and>
      moreDetails (initial_result\<lparr>moreDetails := lit ''Palm oil.'' @ [NL] @ lit ''Fragrance.''\<rparr>) = trim (moreDetails (result st')))) \<and>
   (scan [(lit ''   '')] (initial_state\<lparr>currentSection := Some MoreDetails\<rparr>) = Inr (initial_state\<lparr>currentSection := Some MoreDetails\<rparr>) \<and> scan ((lit ''   '') # ([lit ''Next line.''])) (initial_state\<lparr>currentSection := Some MoreDetails\<rparr>) = scan ([lit ''Next line.'']) (initial_state\<lparr>currentSection := Some MoreDetails\<rparr>)) \<and>
   (scan [(ICON_CHECK @ lit '' Certified organic.'')] (initial_state\<lparr>currentSection := Some MoreDetails\<rparr>) =
     Inr ((initial_state\<lparr>currentSection := Some MoreDetails\<rparr>)\<lparr>result := (result (initial_state\<lparr>currentSection := Some MoreDetails\<rparr>))\<lparr>icon := first_token (trim (ICON_CHECK @ lit '' Certified organic.''))\<rparr>\<rparr>) \<and>
   scan ((ICON_CHECK @ lit '' Certified organic.'') # ([lit ''Next line.''])) (initial_state\<lparr>currentSection := Some MoreDetails\<rparr>) =
     scan ([lit ''Next line.'']) ((initial_state\<lparr>currentSection := Some MoreDetails\<rparr>)\<lparr>result := (result (initial_state\<lparr>currentSection := Some MoreDetails\<rparr>))\<lparr>icon := first_token (trim (ICON_CHECK @ lit '' Certified organic.''))\<rparr>\<rparr>))"
proof -
  have h: "(currentSection (initial_state\<lparr>currentSection := Some MoreDetails\<rparr>) = Some MoreDetails \<and> plain_line (lit ''  Palm oil is widely used. '') \<and> trim (lit ''  Palm oil is widely used. '') \<noteq> []) \<and>
    (currentSection (initial_state\<lparr>currentSection := Some MoreDetails\<rparr>) = Some MoreDetails \<and> list_all plain_line ([lit ''Palm oil.'', lit '''', lit '' Fragrance. ''])) \<and>
    (parseSustainabilityResult (lit ''More details:'' @ [NL] @ lit ''Palm oil.'' @ [NL] @ [NL] @ lit '' Fragrance. '' @ [NL]) = Inr (Some (initial_result\<lparr>moreDetails := lit ''Palm oil.'' @ [NL] @ lit ''Fragrance.''\<rparr>))) \<and>
    (currentSection (initial_state\<lparr>currentSection := Some MoreDetails\<rparr>) = Some MoreDetails \<and> trim (lit ''   '') = []) \<and>
    (currentSection (initial_state\<lparr>currentSection := Some MoreDetails\<rparr>) = Some MoreDetails \<and> icon_line (trim (ICON_CHECK @ lit '' Certified organic.'')))"
    by code_simp
  note i0 = moreDetails_section
    [where st = "initial_state\<lparr>currentSection := Some MoreDetails\<rparr>" and
      l = "lit ''  Palm oil is widely used. ''" and
      ls = "[lit ''Next line.'']" and
      block = "[lit ''Palm oil.'', lit '''', lit '' Fragrance. '']" and
      after = "[lit ''Next line.'']" and
      rawText = "lit ''More details:'' @ [NL] @ lit ''Palm oil.'' @ [NL] @ [NL] @ lit '' Fragrance. '' @ [NL]" and
      r = "initial_result\<lparr>moreDetails := lit ''Palm oil.'' @ [NL] @ lit ''Fragrance.''\<rparr>"]
  note i1 = moreDetails_section
    [where st = "initial_state\<lparr>currentSection := Some MoreDetails\<rparr>" and
      l = "lit ''   ''" and
      ls = "[lit ''Next line.'']" and
      block = "[lit ''Palm oil.'', lit '''', lit '' Fragrance. '']" and
      after = "[lit ''Next line.'']" and
      rawText = "lit ''More details:'' @ [NL] @ lit ''Palm oil.'' @ [NL] @ [NL] @ lit '' Fragrance. '' @ [NL]" and
      r = "initial_result\<lparr>moreDetails := lit ''Palm oil.'' @ [NL] @ lit ''Fragrance.''\<rparr>"]
  note i2 = moreDetails_section
    [where st = "initial_state\<lparr>currentSection := Some MoreDetails\<rparr>" and
      l = "ICON_CHECK @ lit '' Certified organic.''" and
      ls = "[lit ''Next line.'']" and
      block = "[lit ''Palm oil.'', lit '''', lit '' Fragrance. '']" and
      after = "[lit ''Next line.'']" and
      rawText = "lit ''More details:'' @ [NL] @ lit ''Palm oil.'' @ [NL] @ [NL] @ lit '' Fragrance. '' @ [NL]" and
      r = "initial_result\<lparr>moreDetails := lit ''Palm oil.'' @ [NL] @ lit ''Fragrance.''\<rparr>"]
  note c0 = mp [OF i0 [THEN conjunct1] h [THEN conjunct1]]
  note c1 = mp [OF i0 [THEN conjunct2, THEN conjunct2, THEN conjunct2, THEN conjunct1] h [THEN conjunct2, THEN conjunct1]]
  note c2 = mp [OF i0 [THEN conjunct2, THEN conjunct2, THEN conjunct2, THEN conjunct2] h [THEN conjunct2, THEN conjunct2, THEN conjunct1]]
  note c3 = mp [OF i1 [THEN conjunct2, THEN conjunct1] h [THEN conjunct2, THEN conjunct2, THEN conjunct2, THEN conjunct1]]
  note c4 = mp [OF i2 [THEN conjunct2, THEN conjunct2, THEN conjunct1] h [THEN conjunct2, THEN conjunct2, THEN conjunct2, THEN conjunct2]]
  show ?thesis
    by (rule conjI [OF h conjI [OF c0 conjI [OF c1 conjI [OF c2 conjI [OF c3 c4]]]]])
qed

text \<open>
  Two inputs with a non-empty line in the section that is not appended: an icon line
  sets the icon, and a line that starts with \<open>Overall Verdict:\<close> takes the next line as
  the verdict and clears the cursor.
\<close>

theorem icon_line_in_moreDetails_counterexample:
  "parseSustainabilityResult
     (lit ''More details:'' @ [NL] @ ICON_CHECK @ lit '' Certified organic.'' @ [NL] @
      lit ''Great product.'' @ [NL]) =
     Inr (Some (initial_result\<lparr>icon := ICON_CHECK, moreDetails := lit ''Great product.''\<rparr>)) \<and>
   parseSustainabilityResult
     (lit ''More details:'' @ [NL] @ lit ''Overall Verdict: fine'' @ [NL] @
      lit ''Great product.'' @ [NL]) =
     Inr (Some (initial_result\<lparr>overallVerdict := lit ''Great product.''\<rparr>)) \<and>
   moreDetails (initial_result\<lparr>overallVerdict := lit ''Great product.''\<rparr>) = []"
  by code_simp

section \<open>Ingredient-specific details\<close>

lemma section_line_inv: "name_active_inv st \<Longrightarrow> name_active_inv (section_line sec line st)"
  by (auto simp: name_active_inv_def section_line_def Let_def append_explanation_def)

lemma other_line_inv: "name_active_inv st \<Longrightarrow> name_active_inv (other_line line st)"
proof -
  assume a: "name_active_inv st"
  have "name_active_inv (case currentSection st of None \<Rightarrow> st | Some sec \<Rightarrow> section_line sec line st)"
    using a section_line_inv by (simp split: option.splits)
  moreover have "name_active_inv (st\<lparr>currentSection := c\<rparr>)" for c
    using a by (simp add: name_active_inv_def)
  moreover have "name_active_inv (st\<lparr>result := (result st)\<lparr>icon := t\<rparr>\<rparr>)" for t
    using a by (simp add: name_active_inv_def)
  ultimately show ?thesis
    by (simp add: other_line_def split: option.splits)
qed

lemma value_line_inv: "name_active_inv st \<Longrightarrow> name_active_inv (value_line line v st)"
  by (simp add: name_active_inv_def value_line_def)

lemma scan_inv: "scan ls st = Inr st' \<Longrightarrow> name_active_inv st \<Longrightarrow> name_active_inv st'"
proof (induction ls st rule: scan_induct2)
  case (Nil st)
  then show ?case by simp
next
  case (Other l ls st)
  then show ?case by (simp add: scan_other other_line_inv)
next
  case (Last l st)
  then show ?case by (simp add: scan_value_last)
next
  case (Value l n ls st)
  then show ?case by (simp add: scan_value value_line_inv)
qed

lemma initial_inv: "name_active_inv initial_state"
  by (simp add: name_active_inv_def initial_state_def)

lemma name_line_appends_entry:
  "currentSection st = Some IngredientSpecificDetails \<and> plain_line l \<and> endsWithColon (trim l) \<and>
   trim (slice_0_m1 (trim l)) \<noteq> [] \<longrightarrow>
     scan [l] st =
       Inr (st\<lparr>result := (result st)\<lparr>ingredientSpecificDetails :=
                 ingredientSpecificDetails (result st) @
                 [\<lparr>name = trim (slice_0_m1 (trim l)), explanation = []\<rparr>]\<rparr>,
               ingredientDetailName := trim (slice_0_m1 (trim l))\<rparr>) \<and>
     scan (l # ls) st =
       scan ls (st\<lparr>result := (result st)\<lparr>ingredientSpecificDetails :=
                    ingredientSpecificDetails (result st) @
                    [\<lparr>name = trim (slice_0_m1 (trim l)), explanation = []\<rparr>]\<rparr>,
                  ingredientDetailName := trim (slice_0_m1 (trim l))\<rparr>)"
  using scan_plain [of l ls st] scan_plain [of l "[]" st]
  by (simp add: section_line_def Let_def)

lemma empty_name_line_no_entry:
  "currentSection st = Some IngredientSpecificDetails \<and> plain_line l \<and> endsWithColon (trim l) \<and>
   trim (slice_0_m1 (trim l)) = [] \<longrightarrow>
     scan [l] st =
       Inr (st\<lparr>ingredientDetailName := []\<rparr>) \<and>
     scan (l # ls) st =
       scan ls (st\<lparr>ingredientDetailName := []\<rparr>)"
  using scan_plain [of l ls st] scan_plain [of l "[]" st]
  by (simp add: section_line_def Let_def)

lemma explanation_line_appended:
  "currentSection st = Some IngredientSpecificDetails \<and> plain_line l \<and> \<not> endsWithColon (trim l) \<and>
   trim l \<noteq> [] \<and> ingredientDetailName st \<noteq> [] \<and>
   ingredientSpecificDetails (result st) \<noteq> [] \<longrightarrow>
     scan [l] st =
       Inr (st\<lparr>result := (result st)\<lparr>ingredientSpecificDetails :=
                 butlast (ingredientSpecificDetails (result st)) @
                 [(last (ingredientSpecificDetails (result st)))
                    \<lparr>explanation := explanation (last (ingredientSpecificDetails (result st))) @
                                    trim l @ [NL]\<rparr>]\<rparr>\<rparr>) \<and>
     scan (l # ls) st =
       scan ls (st\<lparr>result := (result st)\<lparr>ingredientSpecificDetails :=
                    butlast (ingredientSpecificDetails (result st)) @
                    [(last (ingredientSpecificDetails (result st)))
                       \<lparr>explanation := explanation (last (ingredientSpecificDetails (result st))) @
                                       trim l @ [NL]\<rparr>]\<rparr>\<rparr>)"
  using scan_plain [of l ls st] scan_plain [of l "[]" st]
  by (simp add: section_line_def Let_def append_explanation_def)

lemma details_icon_line_sets_icon:
  "currentSection st = Some IngredientSpecificDetails \<and> icon_line (trim l) \<longrightarrow>
     scan [l] st =
       Inr (st\<lparr>result := (result st)\<lparr>icon := first_token (trim l)\<rparr>\<rparr>) \<and>
     scan (l # ls) st =
       scan ls (st\<lparr>result := (result st)\<lparr>icon := first_token (trim l)\<rparr>\<rparr>)"
  using scan_icon [of l ls st] scan_icon [of l "[]" st] by simp

lemma active_name_is_last_entry:
  "scan lines initial_state = Inr st \<and> ingredientDetailName st \<noteq> [] \<longrightarrow>
     ingredientSpecificDetails (result st) \<noteq> [] \<and>
     name (last (ingredientSpecificDetails (result st))) = ingredientDetailName st"
proof
  assume a: "scan lines initial_state = Inr st \<and> ingredientDetailName st \<noteq> []"
  then have "name_active_inv st" using scan_inv initial_inv by blast
  then show "ingredientSpecificDetails (result st) \<noteq> [] \<and>
    name (last (ingredientSpecificDetails (result st))) = ingredientDetailName st"
    using a by (simp add: name_active_inv_def)
qed

lemma explanations_trimmed_after_loop:
  "parseSustainabilityResult rawText = Inr (Some r) \<longrightarrow>
     (\<exists>st'. scan (split NL rawText) initial_state = Inr st' \<and>
        ingredientSpecificDetails r =
          map (\<lambda>item. item\<lparr>explanation := trim (explanation item)\<rparr>)
              (ingredientSpecificDetails (result st')))"
proof
  assume "parseSustainabilityResult rawText = Inr (Some r)"
  then obtain st' where st': "scan (split NL rawText) initial_state = Inr st'"
    and r: "r = cleanup (result st')"
    using parse_record_run by blast
  have "ingredientSpecificDetails r =
      map (\<lambda>item. item\<lparr>explanation := trim (explanation item)\<rparr>)
          (ingredientSpecificDetails (result st'))"
    by (simp add: r cleanup_def Let_def)
  then show "\<exists>st'. scan (split NL rawText) initial_state = Inr st' \<and>
      ingredientSpecificDetails r =
        map (\<lambda>item. item\<lparr>explanation := trim (explanation item)\<rparr>)
            (ingredientSpecificDetails (result st'))"
    using st' by blast
qed

text \<open>
  C4, as the code has it. While \<open>currentSection\<close> is \<open>ingredientSpecificDetails\<close>, a
  plain line whose trimmed text ends with a colon and whose text before the colon,
  trimmed, is not empty appends the entry with that name and the empty explanation,
  and makes the name active; when that text is empty no entry is appended. A plain
  line that does not end with a colon and is not empty, while a name is active, is
  appended with a newline to the explanation of the last entry. In each case the loop
  run on that line alone ends in the state described, and the loop goes on from that
  state with the lines after it. An icon line, also one that ends with a colon, sets
  the icon and changes no entry; header lines are taken by the header branches. After
  any lines read from the start an active name is the name of the last entry, so that
  entry exists. The entries of the returned record are those of the loop with every
  explanation trimmed.
\<close>

theorem ingredient_details_section:
  "(currentSection st = Some IngredientSpecificDetails \<and> plain_line l \<and> endsWithColon (trim l) \<and>
   trim (slice_0_m1 (trim l)) \<noteq> [] \<longrightarrow>
     scan [l] st =
       Inr (st\<lparr>result := (result st)\<lparr>ingredientSpecificDetails :=
                 ingredientSpecificDetails (result st) @
                 [\<lparr>name = trim (slice_0_m1 (trim l)), explanation = []\<rparr>]\<rparr>,
               ingredientDetailName := trim (slice_0_m1 (trim l))\<rparr>) \<and>
     scan (l # ls) st =
       scan ls (st\<lparr>result := (result st)\<lparr>ingredientSpecificDetails :=
                    ingredientSpecificDetails (result st) @
                    [\<lparr>name = trim (slice_0_m1 (trim l)), explanation = []\<rparr>]\<rparr>,
                  ingredientDetailName := trim (slice_0_m1 (trim l))\<rparr>)) \<and>
   (currentSection st = Some IngredientSpecificDetails \<and> plain_line l \<and> endsWithColon (trim l) \<and>
   trim (slice_0_m1 (trim l)) = [] \<longrightarrow>
     scan [l] st =
       Inr (st\<lparr>ingredientDetailName := []\<rparr>) \<and>
     scan (l # ls) st =
       scan ls (st\<lparr>ingredientDetailName := []\<rparr>)) \<and>
   (currentSection st = Some IngredientSpecificDetails \<and> plain_line l \<and> \<not> endsWithColon (trim l) \<and>
   trim l \<noteq> [] \<and> ingredientDetailName st \<noteq> [] \<and>
   ingredientSpecificDetails (result st) \<noteq> [] \<longrightarrow>
     scan [l] st =
       Inr (st\<lparr>result := (result st)\<lparr>ingredientSpecificDetails :=
                 butlast (ingredientSpecificDetails (result st)) @
                 [(last (ingredientSpecificDetails (result st)))
                    \<lparr>explanation := explanation (last (ingredientSpecificDetails (result st))) @
                                    trim l @ [NL]\<rparr>]\<rparr>\<rparr>) \<and>
     scan (l # ls) st =
       scan ls (st\<lparr>result := (result st)\<lparr>ingredientSpecificDetails :=
                    butlast (ingredientSpecificDetails (result st)) @
                    [(last (ingredientSpecificDetails (result st)))
                       \<lparr>explanation := explanation (last (ingredientSpecificDetails (result st))) @
                                       trim l @ [NL]\<rparr>]\<rparr>\<rparr>)) \<and>
   (currentSection st = Some IngredientSpecificDetails \<and> icon_line (trim l) \<longrightarrow>
     scan [l] st =
       Inr (st\<lparr>result := (result st)\<lparr>icon := first_token (trim l)\<rparr>\<rparr>) \<and>
     scan (l # ls) st =
       scan ls (st\<lparr>result := (result st)\<lparr>icon := first_token (trim l)\<rparr>\<rparr>)) \<and>
   (scan lines initial_state = Inr st \<and> ingredientDetailName st \<noteq> [] \<longrightarrow>
     ingredientSpecificDetails (result st) \<noteq> [] \<and>
     name (last (ingredientSpecificDetails (result st))) = ingredientDetailName st) \<and>
   (parseSustainabilityResult rawText = Inr (Some r) \<longrightarrow>
     (\<exists>st'. scan (split NL rawText) initial_state = Inr st' \<and>
        ingredientSpecificDetails r =
          map (\<lambda>item. item\<lparr>explanation := trim (explanation item)\<rparr>)
              (ingredientSpecificDetails (result st'))))"
  by (rule conjI, rule name_line_appends_entry, rule conjI, rule empty_name_line_no_entry,
      rule conjI, rule explanation_line_appended, rule conjI, rule details_icon_line_sets_icon,
      rule conjI, rule active_name_is_last_entry, rule explanations_trimmed_after_loop)

theorem ingredient_details_section_witness:
  "((currentSection (initial_state\<lparr>currentSection := Some IngredientSpecificDetails\<rparr>) = Some IngredientSpecificDetails \<and> plain_line (lit ''Paraben:'') \<and> endsWithColon (trim (lit ''Paraben:'')) \<and>
   trim (slice_0_m1 (trim (lit ''Paraben:''))) \<noteq> []) \<and>
   (currentSection (initial_state\<lparr>currentSection := Some IngredientSpecificDetails\<rparr>) = Some IngredientSpecificDetails \<and> plain_line (lit '' : '') \<and> endsWithColon (trim (lit '' : '')) \<and>
   trim (slice_0_m1 (trim (lit '' : ''))) = []) \<and>
   (currentSection paraben_state = Some IngredientSpecificDetails \<and> plain_line (lit ''Synthetic preservative.'') \<and> \<not> endsWithColon (trim (lit ''Synthetic preservative.'')) \<and>
   trim (lit ''Synthetic preservative.'') \<noteq> [] \<and> ingredientDetailName paraben_state \<noteq> [] \<and>
   ingredientSpecificDetails (result paraben_state) \<noteq> []) \<and>
   (scan ([lit ''Ingredient-specific details:'', lit ''Paraben:'']) initial_state = Inr paraben_state \<and> ingredientDetailName paraben_state \<noteq> []) \<and>
   (parseSustainabilityResult PARABEN_EXAMPLE = Inr (Some (initial_result\<lparr>ingredientSpecificDetails :=
     [\<lparr>name = lit ''Paraben'',
       explanation = lit ''Synthetic preservative.'' @ [NL] @ lit ''More text.''\<rparr>]\<rparr>))) \<and>
   (currentSection paraben_state = Some IngredientSpecificDetails \<and> icon_line (trim (ICON_CHECK @ lit '' Aloe vera:'')))) \<and>
   (scan [(lit ''Paraben:'')] (initial_state\<lparr>currentSection := Some IngredientSpecificDetails\<rparr>) =
     Inr ((initial_state\<lparr>currentSection := Some IngredientSpecificDetails\<rparr>)\<lparr>result := (result (initial_state\<lparr>currentSection := Some IngredientSpecificDetails\<rparr>))\<lparr>ingredientSpecificDetails :=
               ingredientSpecificDetails (result (initial_state\<lparr>currentSection := Some IngredientSpecificDetails\<rparr>)) @
               [\<lparr>name = trim (slice_0_m1 (trim (lit ''Paraben:''))), explanation = []\<rparr>]\<rparr>,
             ingredientDetailName := trim (slice_0_m1 (trim (lit ''Paraben:'')))\<rparr>) \<and>
   scan ((lit ''Paraben:'') # ([lit ''Next line.''])) (initial_state\<lparr>currentSection := Some IngredientSpecificDetails\<rparr>) =
     scan ([lit ''Next line.'']) ((initial_state\<lparr>currentSection := Some IngredientSpecificDetails\<rparr>)\<lparr>result := (result (initial_state\<lparr>currentSection := Some IngredientSpecificDetails\<rparr>))\<lparr>ingredientSpecificDetails :=
                  ingredientSpecificDetails (result (initial_state\<lparr>currentSection := Some IngredientSpecificDetails\<rparr>)) @
                  [\<lparr>name = trim (slice_0_m1 (trim (lit ''Paraben:''))), explanation = []\<rparr>]\<rparr>,
                ingredientDetailName := trim (slice_0_m1 (trim (lit ''Paraben:'')))\<rparr>)) \<and>
   (scan [(lit '' : '')] (initial_state\<lparr>currentSection := Some IngredientSpecificDetails\<rparr>) =
     Inr ((initial_state\<lparr>currentSection := Some IngredientSpecificDetails\<rparr>)\<lparr>ingredientDetailName := []\<rparr>) \<and>
   scan ((lit '' : '') # ([lit ''Next line.''])) (initial_state\<lparr>currentSection := Some IngredientSpecificDetails\<rparr>) =
     scan ([lit ''Next line.'']) ((initial_state\<lparr>currentSection := Some IngredientSpecificDetails\<rparr>)\<lparr>ingredientDetailName := []\<rparr>)) \<and>
   (scan [(lit ''Synthetic preservative.'')] paraben_state =
     Inr (paraben_state\<lparr>result := (result paraben_state)\<lparr>ingredientSpecificDetails :=
               butlast (ingredientSpecificDetails (result paraben_state)) @
               [(last (ingredientSpecificDetails (result paraben_state)))
                  \<lparr>explanation := explanation (last (ingredientSpecificDetails (result paraben_state))) @
                                  trim (lit ''Synthetic preservative.'') @ [NL]\<rparr>]\<rparr>\<rparr>) \<and>
   scan ((lit ''Synthetic preservative.'') # ([lit ''Next line.''])) paraben_state =
     scan ([lit ''Next line.'']) (paraben_state\<lparr>result := (result paraben_state)\<lparr>ingredientSpecificDetails :=
                  butlast (ingredientSpecificDetails (result paraben_state)) @
                  [(last (ingredientSpecificDetails (result paraben_state)))
                     \<lparr>explanation := explanation (last (ingredientSpecificDetails (result paraben_state))) @
                                     trim (lit ''Synthetic preservative.'') @ [NL]\<rparr>]\<rparr>\<rparr>)) \<and>
   (ingredientSpecificDetails (result paraben_state) \<noteq> [] \<and>
   name (last (ingredientSpecificDetails (result paraben_state))) = ingredientDetailName paraben_state) \<and>
   ((\<exists>st'. scan (split NL PARABEN_EXAMPLE) initial_state = Inr st' \<and>
      ingredientSpecificDetails (initial_result\<lparr>ingredientSpecificDetails :=
     [\<lparr>name = lit ''Paraben'',
       explanation = lit ''Synthetic preservative.'' @ [NL] @ lit ''More text.''\<rparr>]\<rparr>) =
        map (\<lambda>item. item\<lparr>explanation := trim (explanation item)\<rparr>)
            (ingredientSpecificDetails (result st')))) \<and>
   (scan [(ICON_CHECK @ lit '' Aloe vera:'')] paraben_state =
     Inr (paraben_state\<lparr>result := (result paraben_state)\<lparr>icon := first_token (trim (ICON_CHECK @ lit '' Aloe vera:''))\<rparr>\<rparr>) \<and>
   scan ((ICON_CHECK @ lit '' Aloe vera:'') # ([lit ''Next line.''])) paraben_state =
     scan ([lit ''Next line.'']) (paraben_state\<lparr>result := (result paraben_state)\<lparr>icon := first_token (trim (ICON_CHECK @ lit '' Aloe vera:''))\<rparr>\<rparr>))"
proof -
  have h: "(currentSection (initial_state\<lparr>currentSection := Some IngredientSpecificDetails\<rparr>) = Some IngredientSpecificDetails \<and> plain_line (lit ''Paraben:'') \<and> endsWithColon (trim (lit ''Paraben:'')) \<and>
    trim (slice_0_m1 (trim (lit ''Paraben:''))) \<noteq> []) \<and>
    (currentSection (initial_state\<lparr>currentSection := Some IngredientSpecificDetails\<rparr>) = Some IngredientSpecificDetails \<and> plain_line (lit '' : '') \<and> endsWithColon (trim (lit '' : '')) \<and>
    trim (slice_0_m1 (trim (lit '' : ''))) = []) \<and>
    (currentSection paraben_state = Some IngredientSpecificDetails \<and> plain_line (lit ''Synthetic preservative.'') \<and> \<not> endsWithColon (trim (lit ''Synthetic preservative.'')) \<and>
    trim (lit ''Synthetic preservative.'') \<noteq> [] \<and> ingredientDetailName paraben_state \<noteq> [] \<and>
    ingredientSpecificDetails (result paraben_state) \<noteq> []) \<and>
    (scan ([lit ''Ingredient-specific details:'', lit ''Paraben:'']) initial_state = Inr paraben_state \<and> ingredientDetailName paraben_state \<noteq> []) \<and>
    (parseSustainabilityResult PARABEN_EXAMPLE = Inr (Some (initial_result\<lparr>ingredientSpecificDetails :=
      [\<lparr>name = lit ''Paraben'',
        explanation = lit ''Synthetic preservative.'' @ [NL] @ lit ''More text.''\<rparr>]\<rparr>))) \<and>
    (currentSection paraben_state = Some IngredientSpecificDetails \<and> icon_line (trim (ICON_CHECK @ lit '' Aloe vera:'')))"
    by code_simp
  note i0 = ingredient_details_section
    [where st = "initial_state\<lparr>currentSection := Some IngredientSpecificDetails\<rparr>" and
      l = "lit ''Paraben:''" and
      ls = "[lit ''Next line.'']" and
      lines = "[lit ''Ingredient-specific details:'']" and
      rawText = "PARABEN_EXAMPLE" and
      r = "initial_result\<lparr>ingredientSpecificDetails :=
  [\<lparr>name = lit ''Paraben'',
    explanation = lit ''Synthetic preservative.'' @ [NL] @ lit ''More text.''\<rparr>]\<rparr>"]
  note i1 = ingredient_details_section
    [where st = "initial_state\<lparr>currentSection := Some IngredientSpecificDetails\<rparr>" and
      l = "lit '' : ''" and
      ls = "[lit ''Next line.'']" and
      lines = "[lit ''Ingredient-specific details:'']" and
      rawText = "PARABEN_EXAMPLE" and
      r = "initial_result\<lparr>ingredientSpecificDetails :=
  [\<lparr>name = lit ''Paraben'',
    explanation = lit ''Synthetic preservative.'' @ [NL] @ lit ''More text.''\<rparr>]\<rparr>"]
  note i2 = ingredient_details_section
    [where st = "paraben_state" and
      l = "lit ''Synthetic preservative.''" and
      ls = "[lit ''Next line.'']" and
      lines = "[lit ''Ingredient-specific details:'', lit ''Paraben:'']" and
      rawText = "PARABEN_EXAMPLE" and
      r = "initial_result\<lparr>ingredientSpecificDetails :=
  [\<lparr>name = lit ''Paraben'',
    explanation = lit ''Synthetic preservative.'' @ [NL] @ lit ''More text.''\<rparr>]\<rparr>"]
  note i3 = ingredient_details_section
    [where st = "paraben_state" and
      l = "ICON_CHECK @ lit '' Aloe vera:''" and
      ls = "[lit ''Next line.'']" and
      lines = "[lit ''Ingredient-specific details:'', lit ''Paraben:'']" and
      rawText = "PARABEN_EXAMPLE" and
      r = "initial_result\<lparr>ingredientSpecificDetails :=
  [\<lparr>name = lit ''Paraben'',
    explanation = lit ''Synthetic preservative.'' @ [NL] @ lit ''More text.''\<rparr>]\<rparr>"]
  note c0 = mp [OF i0 [THEN conjunct1] h [THEN conjunct1]]
  note c1 = mp [OF i1 [THEN conjunct2, THEN conjunct1] h [THEN conjunct2, THEN conjunct1]]
  note c2 = mp [OF i2 [THEN conjunct2, THEN conjunct2, THEN conjunct1] h [THEN conjunct2, THEN conjunct2, THEN conjunct1]]
  note c3 = mp [OF i2 [THEN conjunct2, THEN conjunct2, THEN conjunct2, THEN conjunct2, THEN conjunct1] h [THEN conjunct2, THEN conjunct2, THEN conjunct2, THEN conjunct1]]
  note c4 = mp [OF i2 [THEN conjunct2, THEN conjunct2, THEN conjunct2, THEN conjunct2, THEN conjunct2] h [THEN conjunct2, THEN conjunct2, THEN conjunct2, THEN conjunct2, THEN conjunct1]]
  note c5 = mp [OF i3 [THEN conjunct2, THEN conjunct2, THEN conjunct2, THEN conjunct1] h [THEN conjunct2, THEN conjunct2, THEN conjunct2, THEN conjunct2, THEN conjunct2]]
  show ?thesis
    by (rule conjI [OF h conjI [OF c0 conjI [OF c1 conjI [OF c2 conjI [OF c3 conjI [OF c4 c5]]]]]])
qed

text \<open>
  Three inputs with a line in the section that the claim's words cover and the code
  treats otherwise: an icon line that ends with a colon appends no entry (and the line
  after it is dropped); an icon line after a name line is not appended to the
  explanation; the header \<open>Improvement suggestions:\<close> ends with a colon and appends no
  entry.
\<close>

theorem icon_line_in_details_counterexample:
  "parseSustainabilityResult
     (lit ''Ingredient-specific details:'' @ [NL] @ ICON_CHECK @ lit '' Aloe vera:'' @ [NL] @
      lit ''Soothing.'' @ [NL]) =
     Inr (Some (initial_result\<lparr>icon := ICON_CHECK\<rparr>)) \<and>
   ingredientSpecificDetails (initial_result\<lparr>icon := ICON_CHECK\<rparr>) = [] \<and>
   parseSustainabilityResult
     (lit ''Ingredient-specific details:'' @ [NL] @ lit ''Paraben:'' @ [NL] @
      ICON_CROSS @ lit '' Avoid.'' @ [NL]) =
     Inr (Some (initial_result\<lparr>icon := ICON_CROSS,
        ingredientSpecificDetails := [\<lparr>name = lit ''Paraben'', explanation = []\<rparr>]\<rparr>)) \<and>
   parseSustainabilityResult
     (lit ''Ingredient-specific details:'' @ [NL] @ lit ''Improvement suggestions:'' @ [NL]) =
     Inr (Some initial_result) \<and>
   ingredientSpecificDetails initial_result = []"
  by code_simp







section \<open>The overall verdict\<close>

lemma other_line_verdict: "overallVerdict (result (other_line line st)) = overallVerdict (result st)"
  by (simp add: other_line_def section_line_def Let_def split: option.splits)

lemma verdict_example_lines:
  "split NL (VERDICT_EXAMPLE @ post) =
     [lit ''Overall Verdict:'', lit ''Low Greenwashing Risk''] @ split NL post"
proof -
  have 1: "split NL (lit ''Overall Verdict:'') = [lit ''Overall Verdict:'']" by code_simp
  have 2: "split NL (lit ''Low Greenwashing Risk'') = [lit ''Low Greenwashing Risk'']" by code_simp
  show ?thesis
    by (simp add: VERDICT_EXAMPLE_def split_append_sep 1 2)
qed

lemma cleanup_verdict: "overallVerdict (cleanup r) = overallVerdict r"
  by (simp add: cleanup_def Let_def)

lemma scan_verdict_kept:
  "scan ls st = Inr st' \<Longrightarrow>
   list_all (\<lambda>l. \<not> startsWith (trim l) (lit ''Overall Verdict:'')) ls \<Longrightarrow>
   overallVerdict (result st') = overallVerdict (result st)"
proof (induction ls st rule: scan_induct2)
  case (Nil st)
  then show ?case by simp
next
  case (Other l ls st)
  then show ?case by (simp add: scan_other other_line_verdict)
next
  case (Last l st)
  then show ?case by (simp add: scan_value_last)
next
  case (Value l n ls st)
  then show ?case by (simp add: scan_value value_line_def)
qed

lemma verdict_example_general:
  assumes "pre = [] \<or> last pre = NL"
    and "scan (butlast (split NL pre)) initial_state = Inr st1"
    and "list_all (\<lambda>l. \<not> startsWith (trim l) (lit ''Overall Verdict:'')) (split NL post)"
    and "\<not> value_header (trim (last (split NL post)))"
  shows "\<exists>r. parseSustainabilityResult (pre @ VERDICT_EXAMPLE @ post) = Inr (Some r) \<and>
     overallVerdict r = lit ''Low Greenwashing Risk''"
proof -
  let ?t = "pre @ VERDICT_EXAMPLE @ post"
  let ?P = "butlast (split NL pre)"
  have c: "0x4F \<in> set ?t" by (simp add: VERDICT_EXAMPLE_def lit_def)
  have nw: "\<not> is_ws 0x4F" by (simp add: is_ws_def)
  have ns: "trim ?t \<noteq> trim IRRELEVANT_INPUT_MESSAGE"
    using not_sentinel [OF c nw sentinel_no_O] .
  have ne: "?t \<noteq> []" by (simp add: VERDICT_EXAMPLE_def)
  have lines: "split NL ?t =
      ?P @ lit ''Overall Verdict:'' # lit ''Low Greenwashing Risk'' # split NL post"
    using assms(1) split_line_start [of pre "VERDICT_EXAMPLE @ post"]
    by (simp add: verdict_example_lines)
  have vh: "value_header (trim (lit ''Overall Verdict:''))" by code_simp
  have tv: "trim (lit ''Low Greenwashing Risk'') = lit ''Low Greenwashing Risk''" by code_simp
  have so: "startsWith (trim (lit ''Overall Verdict:'')) (lit ''Overall Verdict:'')" by code_simp
  let ?st2 = "value_line (trim (lit ''Overall Verdict:'')) (lit ''Low Greenwashing Risk'') st1"
  have s2: "scan (lit ''Overall Verdict:'' # lit ''Low Greenwashing Risk'' # rest) st1 = scan rest ?st2"
    for rest
    using scan_value [OF vh, of "lit ''Low Greenwashing Risk''" rest st1] by (simp add: tv)
  have v2: "overallVerdict (result ?st2) = lit ''Low Greenwashing Risk''"
    using so by (simp add: value_line_def)
  obtain st3 where s3: "scan (split NL post) ?st2 = Inr st3"
    using scan_total [of "split NL post" ?st2] assms(4) by blast
  have v3: "overallVerdict (result st3) = overallVerdict (result ?st2)"
    using scan_verdict_kept [OF s3 assms(3)] .
  have "scan (split NL ?t) initial_state = Inr st3"
    using scan_append [OF assms(2)] s2 s3 by (simp add: lines)
  then have "parseSustainabilityResult ?t = Inr (Some (cleanup (result st3)))"
    using ns ne by (simp add: parseSustainabilityResult_def)
  moreover have "overallVerdict (cleanup (result st3)) = lit ''Low Greenwashing Risk''"
    using v2 v3 by (simp add: cleanup_verdict)
  ultimately show ?thesis by blast
qed

text \<open>
  C6, as the code has it. Let the text \<open>Overall Verdict:\nLow Greenwashing Risk\n\<close>
  start at the beginning of a line that the loop reaches (the loop returns on the lines
  before it, so that none of them takes the header as its value), let no line after it
  start, trimmed, with \<open>Overall Verdict:\<close>, and let the last line of the input be no
  single-value header. Then the parser returns a record whose \<open>overallVerdict\<close> is
  \<open>Low Greenwashing Risk\<close>.
\<close>

theorem verdict_at_line_start:
  "(pre = [] \<or> last pre = NL) \<and>
   scan (butlast (split NL pre)) initial_state = Inr st1 \<and>
   list_all (\<lambda>l. \<not> startsWith (trim l) (lit ''Overall Verdict:'')) (split NL post) \<and>
   \<not> value_header (trim (last (split NL post))) \<longrightarrow>
     (\<exists>r. parseSustainabilityResult (pre @ VERDICT_EXAMPLE @ post) = Inr (Some r) \<and>
        overallVerdict r = lit ''Low Greenwashing Risk'')"
  using verdict_example_general [of pre st1 post] by blast

theorem verdict_at_line_start_witness:
  "(((RESPONSE_START = [] \<or> last RESPONSE_START = NL) \<and>
   scan (butlast (split NL RESPONSE_START)) initial_state = Inr (initial_state\<lparr>result := initial_result\<lparr>icon := ICON_CHECK\<rparr>\<rparr>) \<and>
   list_all (\<lambda>l. \<not> startsWith (trim l) (lit ''Overall Verdict:'')) (split NL RESPONSE_AFTER_VERDICT) \<and>
   \<not> value_header (trim (last (split NL RESPONSE_AFTER_VERDICT))))) \<and>
   ((\<exists>r. parseSustainabilityResult (RESPONSE_START @ VERDICT_EXAMPLE @ RESPONSE_AFTER_VERDICT) = Inr (Some r) \<and>
      overallVerdict r = lit ''Low Greenwashing Risk''))"
proof -
  have h: "((RESPONSE_START = [] \<or> last RESPONSE_START = NL) \<and>
    scan (butlast (split NL RESPONSE_START)) initial_state = Inr (initial_state\<lparr>result := initial_result\<lparr>icon := ICON_CHECK\<rparr>\<rparr>) \<and>
    list_all (\<lambda>l. \<not> startsWith (trim l) (lit ''Overall Verdict:'')) (split NL RESPONSE_AFTER_VERDICT) \<and>
    \<not> value_header (trim (last (split NL RESPONSE_AFTER_VERDICT))))"
    by code_simp
  note i0 = verdict_at_line_start
    [where pre = "RESPONSE_START" and
      ?st1.0 = "initial_state\<lparr>result := initial_result\<lparr>icon := ICON_CHECK\<rparr>\<rparr>" and
      post = "RESPONSE_AFTER_VERDICT"]
  note c0 = mp [OF i0 h]
  show ?thesis
    by (rule conjI [OF h c0])
qed

text \<open>
  Three inputs that contain the example text: a later \<open>Overall Verdict:\<close> header
  overwrites the value; a \<open>Greenwashing Risk:\<close> header in the line before takes the
  header line as its own value; a header that follows \<open>## \<close> on its line is not
  recognised. In the last two \<open>overallVerdict\<close> stays empty.
\<close>

theorem verdict_example_counterexample:
  "parseSustainabilityResult
     (VERDICT_EXAMPLE @ lit ''Overall Verdict:'' @ [NL] @ lit ''High Greenwashing Risk'' @ [NL]) =
     Inr (Some (initial_result\<lparr>overallVerdict := lit ''High Greenwashing Risk''\<rparr>)) \<and>
   parseSustainabilityResult (lit ''Greenwashing Risk:'' @ [NL] @ VERDICT_EXAMPLE) =
     Inr (Some (initial_result\<lparr>greenwashingRisk := lit ''Overall Verdict:''\<rparr>)) \<and>
   parseSustainabilityResult (lit ''## '' @ VERDICT_EXAMPLE) = Inr (Some initial_result) \<and>
   overallVerdict initial_result = []"
  by code_simp

section \<open>The report\<close>

lemma appendsI: "(\<And>st. \<exists>xs. placements (f st) = placements st @ xs) \<Longrightarrow> appends f"
  by (simp add: appends_def)

lemma appends_comp: "appends f \<Longrightarrow> appends g \<Longrightarrow> appends (\<lambda>st. g (f st))"
  unfolding appends_def
proof
  fix st
  assume f: "\<forall>st. \<exists>xs. placements (f st) = placements st @ xs"
    and g: "\<forall>st. \<exists>xs. placements (g st) = placements st @ xs"
  obtain xs where "placements (f st) = placements st @ xs" using f by blast
  moreover obtain ys where "placements (g (f st)) = placements (f st) @ ys" using g by blast
  ultimately show "\<exists>xs. placements (g (f st)) = placements st @ xs" by simp
qed

lemma appends_id: "appends (\<lambda>st. st)"
  by (simp add: appends_def)

lemma appends_doc_text: "appends (doc_text t x yy)"
  by (simp add: appends_def doc_text_def)

lemma appends_foldl:
  assumes "\<And>x. appends (\<lambda>st. f st x)"
  shows "appends (\<lambda>st. foldl f st xs)"
proof (induction xs rule: rev_induct)
  case Nil
  then show ?case by (simp add: appends_id)
next
  case (snoc x xs)
  have "appends (\<lambda>st. (\<lambda>st. f st x) (foldl f st xs))"
    using snoc assms [of x] by (rule appends_comp)
  then show ?case by simp
qed

lemma placements_page_break_if [simp]: "placements (page_break_if doc h st) = placements st"
  by (simp add: page_break_if_def)

lemma placements_advance [simp]: "placements (advance d st) = placements st"
  by (simp add: advance_def)

lemma ypos_doc_text [simp]: "ypos (doc_text t x yy st) = ypos st"
  by (simp add: doc_text_def)

lemma numPages_doc_text [simp]: "numPages (doc_text t x yy st) = numPages st"
  by (simp add: doc_text_def)

lemma numPages_advance [simp]: "numPages (advance d st) = numPages st"
  by (simp add: advance_def)

lemma ypos_advance [simp]: "ypos (advance d st) = ypos st + d"
  by (simp add: advance_def)

lemma placements_doc_text:
  "placements (doc_text t x yy st) =
     placements st @ [\<lparr>ppage = numPages st, px = x, py = yy, ptext = t, plink = None\<rparr>]"
  by (simp add: doc_text_def)

lemma appends_bullet_item: "appends (\<lambda>st. bullet_item doc st item)"
  by (rule appendsI) (simp add: bullet_item_def Let_def placements_doc_text)

lemma appends_wrapped_line: "appends (\<lambda>st. wrapped_line doc x st line)"
  by (rule appendsI) (simp add: wrapped_line_def Let_def placements_doc_text)

lemma appends_block:
  assumes "\<And>x. appends (\<lambda>st. F st x)"
  shows "\<exists>xs. placements (foldl F (advance e (doc_text t x (ypos st) st)) items) =
    placements st @ xs"
proof -
  have "appends (\<lambda>st. foldl F st items)"
    using assms by (rule appends_foldl)
  then obtain xs where
    "placements (foldl F (advance e (doc_text t x (ypos st) st)) items) =
       placements (advance e (doc_text t x (ypos st) st)) @ xs"
    unfolding appends_def by blast
  then show ?thesis by (simp add: placements_doc_text)
qed

lemma appends_bulleted_block: "appends (bulleted_block doc heading items)"
  by (rule appendsI) (simp add: bulleted_block_def Let_def appends_block [OF appends_bullet_item])

lemma placements_fallback_line:
  "placements (fallback_line doc heading measured fallback st) =
     placements st @
     [\<lparr>ppage = numPages st, px = margin, py = ypos st, ptext = heading, plink = None\<rparr>,
      \<lparr>ppage = numPages st, px = margin + getTextWidth doc measured + 2, py = ypos st,
        ptext = fallback, plink = None\<rparr>]"
  by (simp add: fallback_line_def Let_def placements_doc_text)

lemma ypos_fallback_line:
  "ypos (fallback_line doc heading measured fallback st) = ypos st + (lineHeight + sectionSpacing)"
  by (simp add: fallback_line_def Let_def)

lemma numPages_fallback_line:
  "numPages (fallback_line doc heading measured fallback st) = numPages st"
  by (simp add: fallback_line_def Let_def)

lemma appends_fallback_line: "appends (fallback_line doc heading measured fallback)"
  by (rule appendsI) (simp add: placements_fallback_line)

lemma appends_claims_section: "appends (claims_section doc r)"
  using appends_bulleted_block appends_fallback_line
  by (simp add: appends_def claims_section_def)

lemma appends_why_section: "appends (why_section doc r)"
  using appends_bulleted_block appends_fallback_line
  by (simp add: appends_def why_section_def)

lemma appends_note_section: "appends (note_section doc r)"
  using appends_bulleted_block appends_fallback_line
  by (simp add: appends_def note_section_def)

lemma appends_more_section: "appends (more_section doc r)"
  by (rule appendsI)
    (simp add: more_section_def Let_def appends_block [OF appends_wrapped_line])

lemma appends_ingredient_item: "appends (\<lambda>st. ingredient_item doc st item)"
proof (rule appendsI)
  fix st
  let ?st3 = "advance lineHeight (doc_text (name item @ lit '':'') (margin + 5)
      (ypos (page_break_if doc (lineHeight * 2) st)) (page_break_if doc (lineHeight * 2) st))"
  have "appends (\<lambda>st. foldl (wrapped_line doc (margin + 10)) st
      (splitTextToSize doc (explanation item) (textWidth doc - 10)))"
    by (rule appends_foldl) (rule appends_wrapped_line)
  then obtain xs where "placements (foldl (wrapped_line doc (margin + 10)) ?st3
      (splitTextToSize doc (explanation item) (textWidth doc - 10))) = placements ?st3 @ xs"
    unfolding appends_def by blast
  then show "\<exists>xs. placements (ingredient_item doc st item) = placements st @ xs"
    by (simp add: ingredient_item_def Let_def placements_doc_text)
qed

lemma appends_ingredient_section: "appends (ingredient_section doc r)"
  by (rule appendsI)
    (simp add: ingredient_section_def Let_def appends_block [OF appends_ingredient_item])

lemma appends_suggestions_section: "appends (suggestions_section doc r)"
  using appends_bulleted_block
  by (simp add: appends_def suggestions_section_def)

lemma appends_url_item: "appends (\<lambda>st. url_item doc st url)"
  by (rule appendsI)
    (simp add: url_item_def Let_def placements_doc_text doc_textWithLink_def)

lemma appends_sources_section: "appends (sources_section doc r)"
  by (rule appendsI)
    (simp add: sources_section_def Let_def appends_block [OF appends_url_item])

lemma appends_later_sections: "appends (later_sections doc r)"
proof -
  note a = appends_comp [OF appends_more_section appends_ingredient_section, of doc r doc r]
  note b = appends_comp [OF a appends_suggestions_section, of doc r]
  note c = appends_comp [OF b appends_sources_section, of doc r]
  show ?thesis
    using c by (simp add: appends_def later_sections_def)
qed

lemma generate_sections:
  "generatePdfReport doc (Some r) =
     Some (later_sections doc r (note_section doc r (why_section doc r
       (claims_section doc r (header_block doc r new_pdf)))))"
  by (simp add: generatePdfReport_def later_sections_def)

text \<open>
  C8. When \<open>claimsFailed\<close> is empty, the heading of the section and the text \<open>None\<close>
  are placed one after the other on the same page at the same height, and no bullet;
  when \<open>whyClaimsFailed\<close> is empty, the heading and the text
  \<open>All claims appear reasonable or are well-supported by ingredients.\<close>; when
  \<open>ingredientsToNote\<close> is empty, the heading and the text \<open>None\<close>.
\<close>

theorem empty_list_fallbacks:
  "(claimsFailed r = [] \<longrightarrow>
      (\<exists>d pre post pg yy.
         generatePdfReport doc (Some r) = Some d \<and>
         placements d =
           pre @
           [\<lparr>ppage = pg, px = margin, py = yy,
              ptext = lit ''Claims that failed to meet expectations:'', plink = None\<rparr>,
            \<lparr>ppage = pg,
              px = margin + getTextWidth doc (lit ''Claims that failed to meet expectations: '') + 2,
              py = yy, ptext = lit ''None'', plink = None\<rparr>] @ post)) \<and>
   (whyClaimsFailed r = [] \<longrightarrow>
      (\<exists>d pre post pg yy.
         generatePdfReport doc (Some r) = Some d \<and>
         placements d =
           pre @
           [\<lparr>ppage = pg, px = margin, py = yy, ptext = lit ''Why these claims failed:'', plink = None\<rparr>,
            \<lparr>ppage = pg, px = margin + getTextWidth doc (lit ''Why these claims failed: '') + 2,
              py = yy,
              ptext = lit ''All claims appear reasonable or are well-supported by ingredients.'',
              plink = None\<rparr>] @ post)) \<and>
   (ingredientsToNote r = [] \<longrightarrow>
      (\<exists>d pre post pg yy.
         generatePdfReport doc (Some r) = Some d \<and>
         placements d =
           pre @
           [\<lparr>ppage = pg, px = margin, py = yy, ptext = lit ''Ingredients to note:'', plink = None\<rparr>,
            \<lparr>ppage = pg, px = margin + getTextWidth doc (lit ''Ingredients to note: '') + 2,
              py = yy, ptext = lit ''None'', plink = None\<rparr>] @ post))"
proof (intro conjI impI)
  let ?h = "header_block doc r new_pdf"
  let ?c = "claims_section doc r ?h"
  let ?w = "why_section doc r ?c"
  let ?n = "note_section doc r ?w"
  let ?d = "later_sections doc r ?n"
  have d: "generatePdfReport doc (Some r) = Some ?d" by (rule generate_sections)
  obtain xn where xn: "placements ?d = placements ?n @ xn"
    using appends_later_sections [of doc r] unfolding appends_def by blast
  obtain xw where xw: "placements ?n = placements ?w @ xw"
    using appends_note_section [of doc r] unfolding appends_def by blast
  obtain xc where xc: "placements ?w = placements ?c @ xc"
    using appends_why_section [of doc r] unfolding appends_def by blast
  {
    assume "claimsFailed r = []"
    then have "placements ?c = placements ?h @
       [\<lparr>ppage = numPages ?h, px = margin, py = ypos ?h,
          ptext = lit ''Claims that failed to meet expectations:'', plink = None\<rparr>,
        \<lparr>ppage = numPages ?h,
          px = margin + getTextWidth doc (lit ''Claims that failed to meet expectations: '') + 2,
          py = ypos ?h, ptext = lit ''None'', plink = None\<rparr>]"
      by (simp add: claims_section_def placements_fallback_line)
    then have e: "placements ?d = placements ?h @
       [\<lparr>ppage = numPages ?h, px = margin, py = ypos ?h,
          ptext = lit ''Claims that failed to meet expectations:'', plink = None\<rparr>,
        \<lparr>ppage = numPages ?h,
          px = margin + getTextWidth doc (lit ''Claims that failed to meet expectations: '') + 2,
          py = ypos ?h, ptext = lit ''None'', plink = None\<rparr>] @ (xc @ xw @ xn)"
      using xn xw xc by simp
    show "\<exists>d pre post pg yy.
         generatePdfReport doc (Some r) = Some d \<and>
         placements d =
           pre @
           [\<lparr>ppage = pg, px = margin, py = yy,
              ptext = lit ''Claims that failed to meet expectations:'', plink = None\<rparr>,
            \<lparr>ppage = pg,
              px = margin + getTextWidth doc (lit ''Claims that failed to meet expectations: '') + 2,
              py = yy, ptext = lit ''None'', plink = None\<rparr>] @ post"
      by (intro exI conjI) (rule d, rule e)
  }
  {
    assume "whyClaimsFailed r = []"
    then have "placements ?w = placements ?c @
       [\<lparr>ppage = numPages ?c, px = margin, py = ypos ?c,
          ptext = lit ''Why these claims failed:'', plink = None\<rparr>,
        \<lparr>ppage = numPages ?c, px = margin + getTextWidth doc (lit ''Why these claims failed: '') + 2,
          py = ypos ?c,
          ptext = lit ''All claims appear reasonable or are well-supported by ingredients.'',
          plink = None\<rparr>]"
      by (simp add: why_section_def placements_fallback_line)
    then have e: "placements ?d = placements ?c @
       [\<lparr>ppage = numPages ?c, px = margin, py = ypos ?c,
          ptext = lit ''Why these claims failed:'', plink = None\<rparr>,
        \<lparr>ppage = numPages ?c, px = margin + getTextWidth doc (lit ''Why these claims failed: '') + 2,
          py = ypos ?c,
          ptext = lit ''All claims appear reasonable or are well-supported by ingredients.'',
          plink = None\<rparr>] @ (xw @ xn)"
      using xn xw by simp
    show "\<exists>d pre post pg yy.
         generatePdfReport doc (Some r) = Some d \<and>
         placements d =
           pre @
           [\<lparr>ppage = pg, px = margin, py = yy, ptext = lit ''Why these claims failed:'', plink = None\<rparr>,
            \<lparr>ppage = pg, px = margin + getTextWidth doc (lit ''Why these claims failed: '') + 2,
              py = yy,
              ptext = lit ''All claims appear reasonable or are well-supported by ingredients.'',
              plink = None\<rparr>] @ post"
      by (intro exI conjI) (rule d, rule e)
  }
  {
    assume "ingredientsToNote r = []"
    then have "placements ?n = placements ?w @
       [\<lparr>ppage = numPages ?w, px = margin, py = ypos ?w,
          ptext = lit ''Ingredients to note:'', plink = None\<rparr>,
        \<lparr>ppage = numPages ?w, px = margin + getTextWidth doc (lit ''Ingredients to note: '') + 2,
          py = ypos ?w, ptext = lit ''None'', plink = None\<rparr>]"
      by (simp add: note_section_def placements_fallback_line)
    then have e: "placements ?d = placements ?w @
       [\<lparr>ppage = numPages ?w, px = margin, py = ypos ?w,
          ptext = lit ''Ingredients to note:'', plink = None\<rparr>,
        \<lparr>ppage = numPages ?w, px = margin + getTextWidth doc (lit ''Ingredients to note: '') + 2,
          py = ypos ?w, ptext = lit ''None'', plink = None\<rparr>] @ xn"
      using xn by simp
    show "\<exists>d pre post pg yy.
         generatePdfReport doc (Some r) = Some d \<and>
         placements d =
           pre @
           [\<lparr>ppage = pg, px = margin, py = yy, ptext = lit ''Ingredients to note:'', plink = None\<rparr>,
            \<lparr>ppage = pg, px = margin + getTextWidth doc (lit ''Ingredients to note: '') + 2,
              py = yy, ptext = lit ''None'', plink = None\<rparr>] @ post"
      by (intro exI conjI) (rule d, rule e)
  }
qed


theorem empty_list_fallbacks_witness:
  "(claimsFailed initial_result = [] \<and> whyClaimsFailed initial_result = [] \<and>
    ingredientsToNote initial_result = []) \<and>
   (\<exists>d pre post pg yy.
      generatePdfReport (A4 (\<lambda>s. 2 * of_nat (length s)) (\<lambda>s w. [s])) (Some initial_result) = Some d \<and>
      placements d =
        pre @
        [\<lparr>ppage = pg, px = margin, py = yy,
           ptext = lit ''Claims that failed to meet expectations:'', plink = None\<rparr>,
         \<lparr>ppage = pg,
           px = margin + getTextWidth (A4 (\<lambda>s. 2 * of_nat (length s)) (\<lambda>s w. [s]))
                  (lit ''Claims that failed to meet expectations: '') + 2,
           py = yy, ptext = lit ''None'', plink = None\<rparr>] @ post) \<and>
   (\<exists>d pre post pg yy.
      generatePdfReport (A4 (\<lambda>s. 2 * of_nat (length s)) (\<lambda>s w. [s])) (Some initial_result) = Some d \<and>
      placements d =
        pre @
        [\<lparr>ppage = pg, px = margin, py = yy, ptext = lit ''Why these claims failed:'', plink = None\<rparr>,
         \<lparr>ppage = pg,
           px = margin + getTextWidth (A4 (\<lambda>s. 2 * of_nat (length s)) (\<lambda>s w. [s]))
                  (lit ''Why these claims failed: '') + 2,
           py = yy,
           ptext = lit ''All claims appear reasonable or are well-supported by ingredients.'',
           plink = None\<rparr>] @ post) \<and>
   (\<exists>d pre post pg yy.
      generatePdfReport (A4 (\<lambda>s. 2 * of_nat (length s)) (\<lambda>s w. [s])) (Some initial_result) = Some d \<and>
      placements d =
        pre @
        [\<lparr>ppage = pg, px = margin, py = yy, ptext = lit ''Ingredients to note:'', plink = None\<rparr>,
         \<lparr>ppage = pg,
           px = margin + getTextWidth (A4 (\<lambda>s. 2 * of_nat (length s)) (\<lambda>s w. [s]))
                  (lit ''Ingredients to note: '') + 2,
           py = yy, ptext = lit ''None'', plink = None\<rparr>] @ post)"
proof -
  have h: "claimsFailed initial_result = [] \<and> whyClaimsFailed initial_result = [] \<and>
    ingredientsToNote initial_result = []"
    by (simp add: initial_result_def)
  show ?thesis
    using h empty_list_fallbacks [of initial_result "A4 (\<lambda>s. 2 * of_nat (length s)) (\<lambda>s w. [s])"]
    by (simp only: simp_thms)
qed

lemma bullets_no_break:
  "ypos st + of_nat (length items) * lineHeight \<le> pageHeight doc - margin \<Longrightarrow>
   numPages (foldl (bullet_item doc) st items) = numPages st \<and>
   ypos (foldl (bullet_item doc) st items) = ypos st + of_nat (length items) * lineHeight"
proof (induction items arbitrary: st)
  case Nil
  then show ?case by simp
next
  case (Cons item items)
  let ?st1 = "bullet_item doc st item"
  have "0 \<le> of_nat (length items) * lineHeight"
    by (simp add: lineHeight_def)
  then have nb: "\<not> ypos st + lineHeight > pageHeight doc - margin"
    using Cons.prems by (simp add: algebra_simps)
  then have y1: "ypos ?st1 = ypos st + lineHeight" and p1: "numPages ?st1 = numPages st"
    by (simp_all add: bullet_item_def page_break_if_def Let_def)
  have "ypos ?st1 + of_nat (length items) * lineHeight \<le> pageHeight doc - margin"
    using Cons.prems y1 by (simp add: algebra_simps)
  then have "numPages (foldl (bullet_item doc) ?st1 items) = numPages ?st1 \<and>
    ypos (foldl (bullet_item doc) ?st1 items) = ypos ?st1 + of_nat (length items) * lineHeight"
    by (rule Cons.IH)
  then show ?case using y1 p1 by (simp add: algebra_simps)
qed

text \<open>
  C5 says that the page-break check precedes every line placement, so that no text is
  placed beyond the bottom margin. The code makes the check before every list item,
  wrapped line, ingredient group and source entry, but places headings and fallback
  texts without it. With 33 failed claims on the A4 page, the 33 bullets end at
  \<open>y = 286\<close>; the heading \<open>Why these claims failed:\<close> is then placed at \<open>y = 296\<close>,
  below the bottom margin at 287, and the heading \<open>Ingredients to note:\<close> at
  \<open>y = 313\<close>, below the end of the page at 297, both on page 1.
\<close>

theorem headings_beyond_bottom_margin:
  "\<exists>d. generatePdfReport (A4 tw sp) (Some claims33) = Some d \<and>
     \<lparr>ppage = 1, px = 10, py = 296, ptext = lit ''Why these claims failed:'', plink = None\<rparr>
       \<in> set (placements d) \<and>
     296 > pageHeight (A4 tw sp) - margin \<and>
     \<lparr>ppage = 1, px = 10, py = 313, ptext = lit ''Ingredients to note:'', plink = None\<rparr>
       \<in> set (placements d) \<and>
     313 > pageHeight (A4 tw sp)"
proof -
  let ?doc = "A4 tw sp"
  let ?h = "header_block ?doc claims33 new_pdf"
  let ?c = "claims_section ?doc claims33 ?h"
  let ?w = "why_section ?doc claims33 ?c"
  let ?n = "note_section ?doc claims33 ?w"
  let ?d = "later_sections ?doc claims33 ?n"
  have d: "generatePdfReport ?doc (Some claims33) = Some ?d" by (rule generate_sections)
  have hh: "pageHeight ?doc = 3564001 / 12000"
    by (simp add: A4_def)
  have yh: "ypos ?h = 48" and ph: "numPages ?h = 1"
    by (simp_all add: header_block_def Let_def new_pdf_def lineHeight_def sectionSpacing_def)
  let ?s = "advance lineHeight
      (doc_text (lit ''Claims that failed to meet expectations:'') margin (ypos ?h) ?h)"
  have len: "length (claimsFailed claims33) = 33" and ne: "claimsFailed claims33 \<noteq> []"
    by (simp_all add: claims33_def)
  have "ypos ?s + of_nat (length (claimsFailed claims33)) * lineHeight \<le> pageHeight ?doc - margin"
    by (simp add: yh len lineHeight_def margin_def hh)
  then have "numPages (foldl (bullet_item ?doc) ?s (claimsFailed claims33)) = numPages ?s \<and>
    ypos (foldl (bullet_item ?doc) ?s (claimsFailed claims33)) =
      ypos ?s + of_nat (length (claimsFailed claims33)) * lineHeight"
    by (rule bullets_no_break)
  then have yc: "ypos ?c = 296" and pc: "numPages ?c = 1"
    using ne by (simp_all add: claims_section_def bulleted_block_def Let_def yh ph len
        lineHeight_def sectionSpacing_def)
  have we: "whyClaimsFailed claims33 = []" and ie: "ingredientsToNote claims33 = []"
    by (simp_all add: claims33_def initial_result_def)
  have w: "placements ?w = placements ?c @
       [\<lparr>ppage = 1, px = 10, py = 296, ptext = lit ''Why these claims failed:'', plink = None\<rparr>,
        \<lparr>ppage = 1, px = 10 + getTextWidth ?doc (lit ''Why these claims failed: '') + 2,
          py = 296,
          ptext = lit ''All claims appear reasonable or are well-supported by ingredients.'',
          plink = None\<rparr>]"
    using we by (simp add: why_section_def placements_fallback_line yc pc margin_def)
  have yw: "ypos ?w = 313" and pw: "numPages ?w = 1"
    using we by (simp_all add: why_section_def ypos_fallback_line numPages_fallback_line yc pc
        lineHeight_def sectionSpacing_def)
  have n: "placements ?n = placements ?w @
       [\<lparr>ppage = 1, px = 10, py = 313, ptext = lit ''Ingredients to note:'', plink = None\<rparr>,
        \<lparr>ppage = 1, px = 10 + getTextWidth ?doc (lit ''Ingredients to note: '') + 2,
          py = 313, ptext = lit ''None'', plink = None\<rparr>]"
    using ie by (simp add: note_section_def placements_fallback_line yw pw margin_def)
  obtain xs where xs: "placements ?d = placements ?n @ xs"
    using appends_later_sections [of ?doc claims33] unfolding appends_def by blast
  have m1: "\<lparr>ppage = 1, px = 10, py = 296, ptext = lit ''Why these claims failed:'', plink = None\<rparr>
       \<in> set (placements ?d)"
    by (simp add: xs n w)
  have m2: "\<lparr>ppage = 1, px = 10, py = 313, ptext = lit ''Ingredients to note:'', plink = None\<rparr>
       \<in> set (placements ?d)"
    by (simp add: xs n)
  have b1: "296 > pageHeight ?doc - margin" and b2: "313 > pageHeight ?doc"
    by (simp_all add: hh margin_def)
  show ?thesis
    using d m1 b1 m2 b2 by blast
qed

end
